theory Spec2Isabelle
  imports Main "HOL-Library.AList" "HOL-Library.Char_ord" "HOL-Library.List_Lexorder"
    "HOL-Library.Product_Lexorder"
begin

section \<open>The exception catcher's server (server/server.py)\<close>

text \<open>
  A shallow embedding of the aggregation and query code of \<^verbatim>\<open>server/server.py\<close>:
  \<^verbatim>\<open>getProject\<close>, \<^verbatim>\<open>getAggregatedError\<close>, \<^verbatim>\<open>putException\<close>, \<^verbatim>\<open>getErrors\<close>,
  \<^verbatim>\<open>filterErrors\<close>, \<^verbatim>\<open>getInstances\<close> and the handlers \<^verbatim>\<open>ReportPage\<close>, \<^verbatim>\<open>ReportWorker\<close>,
  \<^verbatim>\<open>StatPage\<close> and \<^verbatim>\<open>ResolvePage\<close>.

  The datastore and memcache are explicit state. What the App Engine SDK and the Python
  library do is taken as follows.
  \<^item> Times (\<^verbatim>\<open>datetime\<close>) are integers, in seconds since the epoch, and the local time zone
    is UTC; \<^verbatim>\<open>timedelta(minutes = n)\<close> is \<open>60 * n\<close>. JSON numbers are integers.
  \<^item> Strings are lists of characters (code points below 256); \<^verbatim>\<open>encode('utf-8')\<close> is the
    identity.
  \<^item> \<^verbatim>\<open>backtrace.normalizeBacktrace\<close> (a module that is not part of the sources at hand) and
    \<^verbatim>\<open>hashlib.md5\<close> are parameters, fields of \<open>externals\<close>, as is the configured secret key.
  \<^item> The datastore refuses an empty key name and an integer property that does not fit
    in 64 bits, with BadValueError; its limits on the length of strings are not modelled.
    A new entity gets an id above every id of its table. A query returns its rows in the
    order of its sort property, and rows that are equal there (all rows, when the query
    has no order) in ascending order of their keys: the project's name, then the id.
  \<^item> memcache holds serialized entities. The source never writes a key of the form
    \<^verbatim>\<open>project:<name>\<close> and reads it as a Project; it writes keys \<^verbatim>\<open><project>|<hash>\<close> and
    reads them as a LoggedErrorV2. The state keeps the two kinds of entry in two tables,
    the first keyed by the name and the second by the whole key string.
\<close>

subsection \<open>Python values\<close>

datatype exc =
    KeyError string
  | TypeError
  | ValueError
  | AttributeError
  | UnicodeEncodeError
  | BadValueError

text \<open>A JSON scalar as \<^verbatim>\<open>json.loads\<close> returns it: null, a truth value, an integer or a
  string.\<close>

datatype jvalue = JNull | JBool bool | JInt int | JStr string

text \<open>\<^verbatim>\<open>unicode.isspace\<close> on the code points below 256.\<close>

definition isspace :: "char \<Rightarrow> bool" where
  "isspace c = (of_char c \<in> {9, 10, 11, 12, 13, 28, 29, 30, 31, 32, 133, 160 :: nat})"

definition isdigit :: "char \<Rightarrow> bool" where
  "isdigit c = (48 \<le> (of_char c :: nat) \<and> (of_char c :: nat) \<le> 57)"

definition strip :: "string \<Rightarrow> string" where
  "strip s = rev (dropWhile isspace (rev (dropWhile isspace s)))"

text \<open>\<^verbatim>\<open>s.split()\<close>: the maximal runs of characters that are not whitespace.\<close>

fun split_acc :: "string \<Rightarrow> string \<Rightarrow> string list" where
  "split_acc w [] = (if w = [] then [] else [w])"
| "split_acc w (c # cs) =
     (if isspace c then (if w = [] then split_acc [] cs else w # split_acc [] cs)
      else split_acc (w @ [c]) cs)"

definition py_split :: "string \<Rightarrow> string list" where
  "py_split s = split_acc [] s"

definition digits_val :: "string \<Rightarrow> int" where
  "digits_val ds = foldl (\<lambda>a c. 10 * a + (int (of_char c) - 48)) 0 ds"

text \<open>\<^verbatim>\<open>int(s)\<close> for a string: a decimal literal with an optional sign, whitespace around it
  ignored; anything else raises ValueError.\<close>

definition int_of_str :: "string \<Rightarrow> exc + int" where
  "int_of_str s =
     (let t = strip s;
          neg = (t \<noteq> [] \<and> hd t = CHR ''-'');
          ds = (if t \<noteq> [] \<and> (hd t = CHR ''-'' \<or> hd t = CHR ''+'') then tl t else t)
      in if ds \<noteq> [] \<and> list_all isdigit ds
         then Inr (if neg then - digits_val ds else digits_val ds)
         else Inl ValueError)"

text \<open>\<^verbatim>\<open>int(v)\<close> for a JSON scalar.\<close>

fun py_int :: "jvalue \<Rightarrow> exc + int" where
  "py_int (JInt n) = Inr n"
| "py_int (JBool b) = Inr (if b then 1 else 0)"
| "py_int (JStr s) = int_of_str s"
| "py_int JNull = Inl TypeError"

text \<open>The first and the last second a \<^verbatim>\<open>datetime\<close> can hold: the years 1 to 9999.\<close>

definition timestamp_min :: int where
  "timestamp_min = - 62135596800"

definition timestamp_max :: int where
  "timestamp_max = 253402300799"

text \<open>\<^verbatim>\<open>datetime.fromtimestamp(v)\<close>: a number is required, and one outside the years of a
  \<^verbatim>\<open>datetime\<close> raises ValueError.\<close>

fun fromtimestamp :: "jvalue \<Rightarrow> exc + int" where
  "fromtimestamp (JInt n) =
     (if timestamp_min \<le> n \<and> n \<le> timestamp_max then Inr n else Inl ValueError)"
| "fromtimestamp (JBool b) = Inr (if b then 1 else 0)"
| "fromtimestamp (JStr s) = Inl TypeError"
| "fromtimestamp JNull = Inl TypeError"

text \<open>\<^verbatim>\<open>str(n)\<close> for a count.\<close>

fun str_nat :: "nat \<Rightarrow> string" where
  "str_nat n =
     (if n < 10 then [''0123456789'' ! n]
      else str_nat (n div 10) @ [''0123456789'' ! (n mod 10)])"

text \<open>\<^verbatim>\<open>' '.join(xs)\<close>.\<close>

fun join_space :: "string list \<Rightarrow> string" where
  "join_space [] = []"
| "join_space [x] = x"
| "join_space (x # y # ys) = x @ '' '' @ join_space (y # ys)"

text \<open>\<^verbatim>\<open>str(u)\<close> of a unicode string: the ascii codec refuses a code point above 127.\<close>

definition py_str :: "string \<Rightarrow> exc + string" where
  "py_str u = (if list_all (\<lambda>c. (of_char c :: nat) < 128) u then Inr u else Inl UnicodeEncodeError)"

text \<open>\<^verbatim>\<open>t.replace('\n', ' ')\<close>.\<close>

definition replace_newlines :: "string \<Rightarrow> string" where
  "replace_newlines t = map (\<lambda>c. if c = CHR 0x0A then CHR '' '' else c) t"

subsection \<open>Configuration and external functions\<close>

record externals =
  normalizeBacktrace :: "string \<Rightarrow> string"
  md5_hexdigest :: "string \<Rightarrow> string"
  SECRET_KEY :: string

text \<open>\<^verbatim>\<open>generateHash\<close>: the type and the normalized backtrace go into one hasher, one after the
  other.\<close>

definition generateHash :: "externals \<Rightarrow> string \<Rightarrow> string \<Rightarrow> string" where
  "generateHash ext exceptionType backtraceText =
     md5_hexdigest ext (exceptionType @ normalizeBacktrace ext backtraceText)"

subsection \<open>Data model\<close>

text \<open>The key of a LoggedErrorV2: the key name of its parent Project and its id.\<close>

type_synonym ekey = "string \<times> nat"

record LoggedErrorV2 =
  backtrace :: string
  type :: string
  hash :: string
  active :: bool
  count :: int
  level :: int
  firstOccurrence :: int
  lastOccurrence :: int
  lastMessage :: string
  environments :: "string list"
  servers :: "string list"

text \<open>A LoggedErrorInstanceV2 with the key of its parent. \<open>contextJson\<close> is the property
  \<^verbatim>\<open>context\<close>; it holds the dictionary that \<^verbatim>\<open>json.dumps\<close> is given.\<close>

record LoggedErrorInstanceV2 =
  parent_key :: ekey
  environment :: string
  date :: int
  message :: string
  server :: string
  logMessage :: "string option"
  contextJson :: "(string \<times> jvalue) list option"
  affectedUser :: "int option"

text \<open>
  The dictionary a report's JSON text decodes to. A field is \<open>None\<close> when the key is
  missing. \<open>x_message\<close> may be present and null. The fields the code reads as text are
  strings; \<open>x_timestamp\<close> and the values of the dictionary \<open>x_context\<close> are scalars.
\<close>

record report =
  x_backtrace :: "string option"
  x_environment :: "string option"
  x_message :: "string option option"
  x_project :: "string option"
  x_serverName :: "string option"
  x_timestamp :: "jvalue option"
  x_type :: "string option"
  x_logMessage :: "string option"
  x_context :: "(string \<times> jvalue) list option"

text \<open>The payload of a Queue record: what \<^verbatim>\<open>json.loads\<close> makes of the stored text, \<open>None\<close>
  when it raises ValueError.\<close>

type_synonym payload = "report option"

record state =
  projects :: "string list"
  errors :: "(ekey \<times> LoggedErrorV2) list"
  instances :: "LoggedErrorInstanceV2 list"
  queue :: "(nat \<times> payload) list"
  memcache_project :: "(string \<times> string) list"
  memcache_error :: "(string \<times> ekey \<times> LoggedErrorV2) list"

definition init :: state where
  "init = \<lparr>projects = [], errors = [], instances = [], queue = [],
           memcache_project = [], memcache_error = []\<rparr>"

text \<open>\<^verbatim>\<open>Project.get_or_insert(name)\<close> on the table of key names. The datastore refuses an
  empty key name, and nothing is stored then.\<close>

definition get_or_insert :: "string \<Rightarrow> string list \<Rightarrow> exc + string list" where
  "get_or_insert name ps =
     (if name = [] then Inl BadValueError
      else Inr (if name \<in> set ps then ps else ps @ [name]))"

text \<open>The id the datastore gives a new row of a table keyed by (parent, id).\<close>

definition alloc_id :: "((string \<times> nat) \<times> 'v) list \<Rightarrow> nat" where
  "alloc_id tbl = Suc (foldr (\<lambda>p m. max (snd (fst p)) m) tbl 0)"

definition alloc_task :: "(nat \<times> 'v) list \<Rightarrow> nat" where
  "alloc_task tbl = Suc (foldr (\<lambda>p m. max (fst p) m) tbl 0)"

subsection \<open>Aggregation\<close>

text \<open>\<^verbatim>\<open>getProject\<close>: the Project's key name and the state, or the exception of
  \<^verbatim>\<open>get_or_insert\<close>. A cached Project is returned as it is, and nothing is inserted.\<close>

definition getProject :: "string \<Rightarrow> state \<Rightarrow> exc + string \<times> state" where
  "getProject name s =
     (case map_of (memcache_project s) name of
        Some p \<Rightarrow> Inr (p, s)
      | None \<Rightarrow>
          (case get_or_insert name (projects s) of
             Inl e \<Rightarrow> Inl e
           | Inr ps \<Rightarrow> Inr (name, s\<lparr>projects := ps\<rparr>)))"

text \<open>
  Lines 249 to 258 of \<^verbatim>\<open>getAggregatedError\<close>: the cached entity if the key is in memcache,
  else the first active error of the project with this hash whose normalized backtrace
  is the report's. The query has no order, so its rows come by key.
\<close>

definition findError ::
  "externals \<Rightarrow> string \<Rightarrow> string \<Rightarrow> string \<Rightarrow> string \<Rightarrow> state \<Rightarrow> (ekey \<times> LoggedErrorV2) option" where
  "findError ext key project backtraceText errorHash s =
     (case map_of (memcache_error s) key of
        Some serialized \<Rightarrow> Some serialized
      | None \<Rightarrow>
          find (\<lambda>(k, possibility).
                  normalizeBacktrace ext (backtrace possibility) = normalizeBacktrace ext backtraceText)
            (sort_key fst
               (filter (\<lambda>(k, e). fst k = project \<and> hash e = errorHash \<and> active e) (errors s))))"

text \<open>Lines 261 to 271: the update of a matching error.\<close>

definition mergeReport ::
  "string \<Rightarrow> string \<Rightarrow> string \<Rightarrow> string \<Rightarrow> int \<Rightarrow> LoggedErrorV2 \<Rightarrow> LoggedErrorV2" where
  "mergeReport environment' server' backtraceText message' timestamp error =
     (let e1 = error\<lparr>count := count error + 1,
                     firstOccurrence := min (firstOccurrence error) timestamp\<rparr>;
          e2 = (if timestamp > lastOccurrence e1
                then e1\<lparr>lastOccurrence := timestamp, backtrace := backtraceText,
                        lastMessage := take 300 message'\<rparr>
                else e1);
          e3 = (if environment' \<notin> set (environments e2)
                then e2\<lparr>environments := environments e2 @ [environment']\<rparr> else e2)
      in (if server' \<notin> set (servers e3) then e3\<lparr>servers := servers e3 @ [server']\<rparr> else e3))"

text \<open>The memcache key \<^verbatim>\<open>'%s|%s' % (a, errorHash)\<close> of lines 248 and 479.\<close>

definition memcacheKey :: "string \<Rightarrow> string \<Rightarrow> string" where
  "memcacheKey a errorHash = a @ ''|'' @ errorHash"

text \<open>
  \<^verbatim>\<open>getAggregatedError\<close>. Line 246 rebinds \<^verbatim>\<open>project\<close> to the Project entity, so the
  memcache key of line 248 is made of the text \<^verbatim>\<open>'%s'\<close> gives for that object, not of the
  project's name. \<^verbatim>\<open>db.Model\<close> defines no string conversion, so the text is Python's
  default one for an object; it is the argument \<open>projectStr\<close> here.
\<close>

definition getAggregatedError ::
  "externals \<Rightarrow> string \<Rightarrow> string \<Rightarrow> string \<Rightarrow> string \<Rightarrow> string \<Rightarrow> string \<Rightarrow> string \<Rightarrow> int \<Rightarrow>
   state \<Rightarrow> (exc + (ekey \<times> LoggedErrorV2) option) \<times> state" where
  "getAggregatedError ext projectStr project environment' server' backtraceText errorHash message'
     timestamp s =
     (case getProject project s of
        Inl e \<Rightarrow> (Inl e, s)
      | Inr (project', s1) \<Rightarrow>
          (let key = memcacheKey projectStr errorHash
           in case findError ext key project' backtraceText errorHash s1 of
                None \<Rightarrow> (Inr None, s1)
              | Some (k, error) \<Rightarrow>
                  (let error' = mergeReport environment' server' backtraceText message' timestamp
                                  error
                   in (Inr (Some (k, error')),
                       s1\<lparr>errors := AList.update k error' (errors s1),
                          memcache_error := AList.update key (k, error') (memcache_error s1)\<rparr>))))"

text \<open>Lines 294 to 306 of \<^verbatim>\<open>putException\<close>: the properties of a new error. The type has
  its newlines replaced and is cut to 500 characters; \<open>level\<close> has its default,
  \<^verbatim>\<open>Level.ERROR\<close>.\<close>

definition newError ::
  "string \<Rightarrow> string \<Rightarrow> string \<Rightarrow> string \<Rightarrow> string \<Rightarrow> string \<Rightarrow> int \<Rightarrow> LoggedErrorV2" where
  "newError env server' backtraceText exceptionType errorHash message' timestamp =
     (let exceptionType1 = replace_newlines exceptionType;
          exceptionType2 = (if length exceptionType1 > 500 then take 500 exceptionType1
                            else exceptionType1)
      in \<lparr>backtrace = backtraceText, type = replace_newlines exceptionType2,
          hash = errorHash, active = True, count = 1, level = 30,
          firstOccurrence = timestamp, lastOccurrence = timestamp,
          lastMessage = take 300 message', environments = [env], servers = [server']\<rparr>)"

text \<open>Lines 293 to 307: a new error under the project. \<^verbatim>\<open>str(environment)\<close> may raise,
  before the error is put.\<close>

definition createError ::
  "string \<Rightarrow> string \<Rightarrow> string \<Rightarrow> string \<Rightarrow> string \<Rightarrow> string \<Rightarrow> string \<Rightarrow> int \<Rightarrow>
   state \<Rightarrow> (exc + ekey) \<times> state" where
  "createError project environment' server' backtraceText exceptionType errorHash message'
     timestamp s =
     (case getProject project s of
        Inl e \<Rightarrow> (Inl e, s)
      | Inr (parent, s1) \<Rightarrow>
          (case py_str environment' of
             Inl e \<Rightarrow> (Inl e, s1)
           | Inr env \<Rightarrow>
               (let error = newError env server' backtraceText exceptionType errorHash message'
                              timestamp;
                    k = (parent, alloc_id (errors s1))
                in (Inr k, s1\<lparr>errors := errors s1 @ [(k, error)]\<rparr>))))"

text \<open>Lines 309 to 314: the instance under the error with key \<open>k\<close>.\<close>

definition newInstance ::
  "ekey \<Rightarrow> string \<Rightarrow> string \<Rightarrow> string \<Rightarrow> int \<Rightarrow> string option \<Rightarrow> LoggedErrorInstanceV2" where
  "newInstance k environment' server' message' timestamp logMessage' =
     \<lparr>parent_key = k, environment = environment', date = timestamp, message = message',
      server = server', logMessage = logMessage', contextJson = None, affectedUser = None\<rparr>"

text \<open>Lines 309 to 320: the instance is put last. Before that \<^verbatim>\<open>int(context['userId'])\<close> may
  raise, and so may the assignment to \<^verbatim>\<open>affectedUser\<close>, an IntegerProperty, of a number that
  does not fit in 64 bits.\<close>

definition putInstance ::
  "ekey \<Rightarrow> string \<Rightarrow> string \<Rightarrow> string \<Rightarrow> int \<Rightarrow> string option \<Rightarrow>
   (string \<times> jvalue) list option \<Rightarrow> state \<Rightarrow> exc option \<times> state" where
  "putInstance k environment' server' message' timestamp logMessage' ctx s =
     (let instance = newInstance k environment' server' message' timestamp logMessage'
      in case ctx of
           None \<Rightarrow> (None, s\<lparr>instances := instances s @ [instance]\<rparr>)
         | Some c \<Rightarrow>
             if c = [] then (None, s\<lparr>instances := instances s @ [instance]\<rparr>)
             else (case map_of c ''userId'' of
                     None \<Rightarrow>
                       (None, s\<lparr>instances := instances s @ [instance\<lparr>contextJson := Some c\<rparr>]\<rparr>)
                   | Some v \<Rightarrow>
                       (case py_int v of
                          Inl e \<Rightarrow> (Some e, s)
                        | Inr n \<Rightarrow>
                            if - (2 ^ 63) \<le> n \<and> n < 2 ^ 63
                            then (None, s\<lparr>instances := instances s @
                               [instance\<lparr>contextJson := Some c, affectedUser := Some n\<rparr>]\<rparr>)
                            else (Some BadValueError, s))))"

text \<open>Lines 289 to 320, with the fields of the report read.\<close>

definition putFields ::
  "externals \<Rightarrow> string \<Rightarrow> string \<Rightarrow> string \<Rightarrow> string \<Rightarrow> string \<Rightarrow> string \<Rightarrow> int \<Rightarrow> string \<Rightarrow>
   string option \<Rightarrow> (string \<times> jvalue) list option \<Rightarrow> state \<Rightarrow> exc option \<times> state" where
  "putFields ext projectStr backtraceText environment' message' project server' timestamp
     exceptionType logMessage' ctx s =
     (let errorHash = generateHash ext exceptionType backtraceText
      in case getAggregatedError ext projectStr project environment' server' backtraceText
                errorHash message' timestamp s of
           (Inl e, s1) \<Rightarrow> (Some e, s1)
         | (Inr (Some (k, error)), s1) \<Rightarrow>
             putInstance k environment' server' message' timestamp logMessage' ctx s1
         | (Inr None, s1) \<Rightarrow>
             (case createError project environment' server' backtraceText exceptionType errorHash
                     message' timestamp s1 of
                (Inl e, s2) \<Rightarrow> (Some e, s2)
              | (Inr k, s2) \<Rightarrow>
                  putInstance k environment' server' message' timestamp logMessage' ctx s2))"

text \<open>
  \<^verbatim>\<open>putException\<close>: \<open>None\<close> when it returns, the exception when it raises, and the state it
  leaves. Lines 279 to 285 raise KeyError on the first missing key, in the order of the
  source; \<^verbatim>\<open>exception['message'] or ''\<close> turns null into the empty string.
\<close>

definition putException :: "externals \<Rightarrow> string \<Rightarrow> report \<Rightarrow> state \<Rightarrow> exc option \<times> state" where
  "putException ext projectStr exception s =
     (case x_backtrace exception of None \<Rightarrow> (Some (KeyError ''backtrace''), s)
      | Some backtraceText \<Rightarrow>
     (case x_environment exception of None \<Rightarrow> (Some (KeyError ''environment''), s)
      | Some environment' \<Rightarrow>
     (case x_message exception of None \<Rightarrow> (Some (KeyError ''message''), s)
      | Some m \<Rightarrow>
     (case x_project exception of None \<Rightarrow> (Some (KeyError ''project''), s)
      | Some project \<Rightarrow>
     (case x_serverName exception of None \<Rightarrow> (Some (KeyError ''serverName''), s)
      | Some server' \<Rightarrow>
     (case x_timestamp exception of None \<Rightarrow> (Some (KeyError ''timestamp''), s)
      | Some tv \<Rightarrow>
     (case fromtimestamp tv of Inl e \<Rightarrow> (Some e, s)
      | Inr timestamp \<Rightarrow>
     (case x_type exception of None \<Rightarrow> (Some (KeyError ''type''), s)
      | Some exceptionType \<Rightarrow>
          putFields ext projectStr backtraceText environment'
            (case m of None \<Rightarrow> [] | Some t \<Rightarrow> t) project server' timestamp exceptionType
            (x_logMessage exception) (x_context exception) s))))))))"

subsection \<open>Handlers\<close>

text \<open>
  \<^verbatim>\<open>ResolvePage.doAuthenticatedGet\<close>. \<^verbatim>\<open>LoggedErrorV2.get\<close> returns None for a key that is not
  stored, and setting an attribute of None raises. The memcache key deleted is made of the
  project's name, \<^verbatim>\<open>error.parent_key().name()\<close>.
\<close>

definition ResolvePage_doAuthenticatedGet :: "ekey \<Rightarrow> state \<Rightarrow> exc option \<times> state" where
  "ResolvePage_doAuthenticatedGet key s =
     (case map_of (errors s) key of
        None \<Rightarrow> (Some AttributeError, s)
      | Some error \<Rightarrow>
          (let s1 = s\<lparr>errors := AList.update key (error\<lparr>active := False\<rparr>) (errors s)\<rparr>;
               key' = memcacheKey (fst key) (hash error)
           in (None, s1\<lparr>memcache_error := AList.delete key' (memcache_error s1)\<rparr>)))"

text \<open>\<^verbatim>\<open>ReportPage.post\<close>: the key of the Queue record handed to the task queue, or \<open>None\<close>
  for the answer 403.\<close>

definition ReportPage_post :: "externals \<Rightarrow> string \<Rightarrow> payload \<Rightarrow> state \<Rightarrow> nat option \<times> state" where
  "ReportPage_post ext key body s =
     (if key \<noteq> SECRET_KEY ext then (None, s)
      else (let task = alloc_task (queue s)
            in (Some task, s\<lparr>queue := queue s @ [(task, body)]\<rparr>)))"

text \<open>\<^verbatim>\<open>ReportWorker.post\<close> for the request parameter \<open>key\<close>.\<close>

definition ReportWorker_post :: "externals \<Rightarrow> string \<Rightarrow> nat \<Rightarrow> state \<Rightarrow> exc option \<times> state" where
  "ReportWorker_post ext projectStr key s =
     (case map_of (queue s) key of
        None \<Rightarrow> (None, s)
      | Some task \<Rightarrow>
          (case task of
             None \<Rightarrow> (Some ValueError, s)
           | Some exception \<Rightarrow>
               (case putException ext projectStr exception s of
                  (Some e, s1) \<Rightarrow> (Some e, s1)
                | (None, s1) \<Rightarrow> (None, s1\<lparr>queue := AList.delete key (queue s1)\<rparr>))))"

text \<open>
  The loop of \<^verbatim>\<open>StatPage.get\<close> over the words of \<^verbatim>\<open>minutes\<close>: for each, the number of
  instances (under the project, if one is given) whose date is at least \<open>now\<close> less that
  many minutes. \<open>now\<close> is \<^verbatim>\<open>datetime.now()\<close>, one value for the whole request.
\<close>

fun countWindows ::
  "string option \<Rightarrow> int \<Rightarrow> LoggedErrorInstanceV2 list \<Rightarrow> string list \<Rightarrow> exc + nat list" where
  "countWindows project now insts [] = Inr []"
| "countWindows project now insts (minutes # rest) =
     (case int_of_str minutes of
        Inl e \<Rightarrow> Inl e
      | Inr n \<Rightarrow>
          (case countWindows project now insts rest of
             Inl e \<Rightarrow> Inl e
           | Inr counts \<Rightarrow>
               Inr (length (filter (\<lambda>i. (case project of None \<Rightarrow> True
                                           | Some p \<Rightarrow> fst (parent_key i) = p)
                                        \<and> date i \<ge> now - 60 * n) insts) # counts)))"

datatype response = Error403 | Written string | Raised exc

text \<open>
  \<^verbatim>\<open>StatPage.get\<close> with the request parameters \<open>key\<close>, \<open>project\<close> (empty when absent) and
  \<open>minutes\<close>. The branch \<^verbatim>\<open>if not project\<close> of line 395 tests an entity, which is true
  in Python, so it is never taken.
\<close>

definition StatPage_get ::
  "externals \<Rightarrow> int \<Rightarrow> string \<Rightarrow> string \<Rightarrow> string \<Rightarrow> state \<Rightarrow> response \<times> state" where
  "StatPage_get ext now key project minutes s =
     (if key \<noteq> SECRET_KEY ext then (Error403, s)
      else (case (if project \<noteq> []
                  then (case getProject project s of
                          Inl e \<Rightarrow> Inl e
                        | Inr (p, s') \<Rightarrow> Inr (Some p, s'))
                  else Inr (None, s)) of
              Inl e \<Rightarrow> (Raised e, s)
            | Inr (project', s1) \<Rightarrow>
                (case countWindows project' now (instances s1) (py_split minutes) of
                   Inl e \<Rightarrow> (Raised e, s1)
                 | Inr counts \<Rightarrow> (Written (join_space (map str_nat counts)), s1))))"

subsection \<open>Queries\<close>

text \<open>The dictionary of filters \<^verbatim>\<open>getFilters\<close> builds: a field is \<open>None\<close> when the request
  has no such parameter. The values are the request's strings.\<close>

record filters =
  f_project :: "string option"
  f_environment :: "string option"
  f_server :: "string option"
  f_affectedUser :: "string option"

text \<open>The dictionary \<^verbatim>\<open>instanceFilters\<close> of \<^verbatim>\<open>getErrors\<close> is not empty.\<close>

definition hasInstanceFilters :: "filters \<Rightarrow> bool" where
  "hasInstanceFilters fs =
     (f_environment fs \<noteq> None \<or> f_server fs \<noteq> None \<or> f_affectedUser fs \<noteq> None)"

text \<open>The rows \<^verbatim>\<open>filterData\<close> keeps, with the affectedUser filter already an integer.\<close>

definition instanceMatches ::
  "string option \<Rightarrow> string option \<Rightarrow> int option \<Rightarrow> LoggedErrorInstanceV2 \<Rightarrow> bool" where
  "instanceMatches env srv user i =
     ((case env of None \<Rightarrow> True | Some v \<Rightarrow> environment i = v) \<and>
      (case srv of None \<Rightarrow> True | Some v \<Rightarrow> server i = v) \<and>
      (case user of None \<Rightarrow> True | Some n \<Rightarrow> affectedUser i = Some n))"

text \<open>\<^verbatim>\<open>getInstances\<close>: \<^verbatim>\<open>filterData\<close> converts the value of affectedUser with \<^verbatim>\<open>int\<close>, which
  may raise; the result is ordered by date, latest first, and by key among equal dates
  (the key of an instance begins with its parent's).\<close>

definition getInstances ::
  "filters \<Rightarrow> ekey option \<Rightarrow> state \<Rightarrow> exc + LoggedErrorInstanceV2 list" where
  "getInstances fs parent s =
     (case (case f_affectedUser fs of
              None \<Rightarrow> Inr None
            | Some value \<Rightarrow> (case int_of_str value of Inl e \<Rightarrow> Inl e | Inr n \<Rightarrow> Inr (Some n))) of
        Inl e \<Rightarrow> Inl e
      | Inr user \<Rightarrow>
          Inr (sort_key (\<lambda>i. (- date i, parent_key i))
                 (filter (\<lambda>i. (case parent of None \<Rightarrow> True | Some k \<Rightarrow> parent_key i = k) \<and>
                               instanceMatches (f_environment fs) (f_server fs) user i)
                    (instances s))))"

text \<open>The \<^verbatim>\<open>defaultdict(list)\<close> of \<^verbatim>\<open>filterErrors\<close>: the instances by the key of their
  parent.\<close>

definition instanceMap ::
  "LoggedErrorInstanceV2 list \<Rightarrow> ekey \<Rightarrow> LoggedErrorInstanceV2 list" where
  "instanceMap insts =
     foldl (\<lambda>m instance. m(parent_key instance := m (parent_key instance) @ [instance]))
       (\<lambda>k. []) insts"

text \<open>
  The dictionary \<^verbatim>\<open>filterErrors\<close> yields for an error with the instances found for it: the
  error's properties with count, lastOccurrence, environments and servers replaced. A
  Python set has no order of its own; the lists here are in order of first appearance.
\<close>

definition errorDict ::
  "LoggedErrorV2 \<Rightarrow> LoggedErrorInstanceV2 list \<Rightarrow> LoggedErrorV2" where
  "errorDict error insts =
     error\<lparr>count := int (length insts),
           lastOccurrence := date (hd (sort_key (\<lambda>x. - date x) insts)),
           environments := remdups (map environment insts),
           servers := remdups (map server insts)\<rparr>"

definition filterErrors ::
  "(ekey \<times> LoggedErrorV2) list \<Rightarrow> filters \<Rightarrow> state \<Rightarrow> exc + (ekey \<times> LoggedErrorV2) list" where
  "filterErrors errs instanceFilters s =
     (case getInstances instanceFilters None s of
        Inl e \<Rightarrow> Inl e
      | Inr found \<Rightarrow>
          Inr (concat (map (\<lambda>(k, error).
                 (let insts = instanceMap found k
                  in if insts \<noteq> [] then [(k, errorDict error insts)] else [])) errs)))"

text \<open>
  \<^verbatim>\<open>getErrors\<close>. The active errors are ordered by last occurrence, latest first, and by
  key among equal ones. The generator of \<^verbatim>\<open>filterErrors\<close> runs when \<^verbatim>\<open>islice\<close> asks for its
  first item, which it does unless both \<open>offset\<close> and \<open>limit\<close> are zero.
\<close>

definition getErrors ::
  "filters \<Rightarrow> nat \<Rightarrow> nat \<Rightarrow> state \<Rightarrow> (exc + (ekey \<times> LoggedErrorV2) list) \<times> state" where
  "getErrors fs limit offset s =
     (case (case f_project fs of
              None \<Rightarrow> Inr (None, s)
            | Some value \<Rightarrow>
                (case getProject value s of
                   Inl e \<Rightarrow> Inl e
                 | Inr (p, s') \<Rightarrow> Inr (Some p, s'))) of
        Inl e \<Rightarrow> (Inl e, s)
      | Inr (project, s1) \<Rightarrow>
          (let errs = sort_key (\<lambda>(k, e). (- lastOccurrence e, k))
                        (filter (\<lambda>(k, e). active e \<and>
                                   (case project of None \<Rightarrow> True | Some p \<Rightarrow> fst k = p))
                           (errors s1))
           in if hasInstanceFilters fs then
                (if offset + limit = 0 then (Inr [], s1)
                 else (case filterErrors errs fs s1 of
                         Inl e \<Rightarrow> (Inl e, s1)
                       | Inr views \<Rightarrow> (Inr (take limit (drop offset views)), s1)))
              else (Inr (take limit (drop offset errs)), s1)))"

subsection \<open>Sequences of reports\<close>

text \<open>Reports put one after the other, each with the text its Project object has in that
  request; a report that raises leaves what it had written.\<close>

fun putExceptions :: "externals \<Rightarrow> (string \<times> report) list \<Rightarrow> state \<Rightarrow> state" where
  "putExceptions ext [] s = s"
| "putExceptions ext ((projectStr, exception) # rest) s =
     putExceptions ext rest (snd (putException ext projectStr exception s))"

subsection \<open>Requests\<close>

text \<open>The requests that change the state, and a server that handles them one after the
  other, starting from an empty datastore and an empty memcache.\<close>

datatype request =
    Report string payload
  | Work string nat
  | Resolve ekey
  | ListErrors filters nat nat
  | Stats int string string string

fun handle :: "externals \<Rightarrow> request \<Rightarrow> state \<Rightarrow> state" where
  "handle ext (Report key body) s = snd (ReportPage_post ext key body s)"
| "handle ext (Work projectStr key) s = snd (ReportWorker_post ext projectStr key s)"
| "handle ext (Resolve key) s = snd (ResolvePage_doAuthenticatedGet key s)"
| "handle ext (ListErrors fs limit offset) s = snd (getErrors fs limit offset s)"
| "handle ext (Stats now key project minutes) s = snd (StatPage_get ext now key project minutes s)"

fun serve :: "externals \<Rightarrow> request list \<Rightarrow> state \<Rightarrow> state" where
  "serve ext [] s = s"
| "serve ext (r # rs) s = serve ext rs (handle ext r s)"

subsection \<open>Properties of a state, and sample data\<close>

text \<open>What \<open>getProject\<close> does, piece by piece: whether it raises, the key name it returns
  and the state it leaves.\<close>

definition projectRaises :: "state \<Rightarrow> string \<Rightarrow> bool" where
  "projectRaises s name = (map_of (memcache_project s) name = None \<and> name = [])"

definition projectKey :: "state \<Rightarrow> string \<Rightarrow> string" where
  "projectKey s name = (case map_of (memcache_project s) name of Some p \<Rightarrow> p | None \<Rightarrow> name)"

definition withProject :: "string \<Rightarrow> state \<Rightarrow> state" where
  "withProject name s =
     (case map_of (memcache_project s) name of
        Some p \<Rightarrow> s
      | None \<Rightarrow> s\<lparr>projects := (if name \<in> set (projects s) then projects s
                                else projects s @ [name])\<rparr>)"

text \<open>Every stored error and every cached one has its first occurrence no later than its
  last.\<close>

definition ordered_times :: "state \<Rightarrow> bool" where
  "ordered_times s =
     (list_all (\<lambda>(k, e). firstOccurrence e \<le> lastOccurrence e) (errors s) \<and>
      list_all (\<lambda>(key, k, e). firstOccurrence e \<le> lastOccurrence e) (memcache_error s))"

text \<open>The active errors of a project with a given hash: the rows of the query of line
  253, in storage order.\<close>

definition activeWithHash :: "string \<Rightarrow> string \<Rightarrow> state \<Rightarrow> (ekey \<times> LoggedErrorV2) list" where
  "activeWithHash project errorHash s =
     filter (\<lambda>(k, e). fst k = project \<and> hash e = errorHash \<and> active e) (errors s)"

text \<open>A report lacks a key \<^verbatim>\<open>putException\<close> subscripts, or its timestamp does not convert.\<close>

definition missingField :: "report \<Rightarrow> bool" where
  "missingField r =
     (x_backtrace r = None \<or> x_environment r = None \<or> x_message r = None \<or>
      x_project r = None \<or> x_serverName r = None \<or> x_type r = None \<or>
      (case x_timestamp r of None \<Rightarrow> True | Some v \<Rightarrow> isl (fromtimestamp v)))"

text \<open>
  The occurrences of the error with key \<open>k\<close> that match the filters: each filter that is
  given holds of the occurrence. The environment and the server are the filter's text;
  the affected user is the number that the filter's text denotes, and a text that denotes
  no number matches no occurrence.
\<close>

definition matchingInstances ::
  "filters \<Rightarrow> ekey \<Rightarrow> state \<Rightarrow> LoggedErrorInstanceV2 list" where
  "matchingInstances fs k s =
     filter (\<lambda>i. parent_key i = k \<and>
                  (f_environment fs = None \<or> f_environment fs = Some (environment i)) \<and>
                  (f_server fs = None \<or> f_server fs = Some (server i)) \<and>
                  (case f_affectedUser fs of
                     None \<Rightarrow> True
                   | Some text \<Rightarrow>
                       (case affectedUser i of
                          None \<Rightarrow> False
                        | Some n \<Rightarrow> int_of_str text = Inr n)))
       (instances s)"

text \<open>The active errors, of one project if the filters name one.\<close>

definition activeErrors :: "filters \<Rightarrow> state \<Rightarrow> (ekey \<times> LoggedErrorV2) list" where
  "activeErrors fs s =
     filter (\<lambda>(k, e). active e \<and>
               (case f_project fs of None \<Rightarrow> True | Some value \<Rightarrow> fst k = projectKey s value))
       (errors s)"

text \<open>Sample externals: the normalizer cuts a backtrace at its first colon, and the digest
  is the text itself, so two digests are equal only for equal texts.\<close>

definition ext0 :: externals where
  "ext0 = \<lparr>normalizeBacktrace = takeWhile (\<lambda>c. c \<noteq> CHR '':''),
           md5_hexdigest = (\<lambda>x. x), SECRET_KEY = ''secret''\<rparr>"

definition sampleReport :: "string \<Rightarrow> string \<Rightarrow> string \<Rightarrow> int \<Rightarrow> report" where
  "sampleReport ty bt env t =
     \<lparr>x_backtrace = Some bt, x_environment = Some env, x_message = Some (Some ''boom''),
      x_project = Some ''P'', x_serverName = Some ''web1'', x_timestamp = Some (JInt t),
      x_type = Some ty, x_logMessage = None, x_context = None\<rparr>"

text \<open>The text of a Project object in a request.\<close>

definition obj :: string where
  "obj = ''<Project object>''"

text \<open>The text of the Project object of another request.\<close>

definition otherObj :: string where
  "otherObj = ''<Project object 2>''"

text \<open>
  What \<^verbatim>\<open>filterErrors\<close> is to yield for the error \<open>e\<close> stored under \<open>k\<close>: the error has
  matching instances; the view counts them, has the latest of their dates and exactly
  their environments and servers, each once; the other properties are the error's.
\<close>

definition viewOf :: "filters \<Rightarrow> state \<Rightarrow> ekey \<Rightarrow> LoggedErrorV2 \<Rightarrow> LoggedErrorV2 \<Rightarrow> bool" where
  "viewOf fs s k e v =
     (matchingInstances fs k s \<noteq> [] \<and>
      count v = int (length (matchingInstances fs k s)) \<and>
      lastOccurrence v = Max (date ` set (matchingInstances fs k s)) \<and>
      set (environments v) = environment ` set (matchingInstances fs k s) \<and>
      distinct (environments v) \<and>
      set (servers v) = server ` set (matchingInstances fs k s) \<and>
      distinct (servers v) \<and>
      backtrace v = backtrace e \<and> type v = type e \<and> hash v = hash e \<and> active v = active e \<and>
      level v = level e \<and> firstOccurrence v = firstOccurrence e \<and> lastMessage v = lastMessage e)"

text \<open>A report whose context has a userId that is not a number.\<close>

definition badUserReport :: report where
  "badUserReport =
     sampleReport ''NullPointer'' ''f:1'' ''prod'' 100\<lparr>x_context := Some [(''userId'', JStr ''abc'')]\<rparr>"

text \<open>The example of the specification: three reports of one error, at 100, 200 and 150.\<close>

definition threeReports :: state where
  "threeReports =
     putExceptions ext0
       [(obj, sampleReport ''NullPointer'' ''f:1'' ''prod'' 100),
        (obj, sampleReport ''NullPointer'' ''f:2'' ''prod'' 200),
        (obj, sampleReport ''NullPointer'' ''f:3'' ''staging'' 150)] init"

text \<open>The error those three reports leave.\<close>

definition sampleGroup :: LoggedErrorV2 where
  "sampleGroup =
     \<lparr>backtrace = ''f:2'', type = ''NullPointer'', hash = ''NullPointerf'', active = True,
      count = 3, level = 30, firstOccurrence = 100, lastOccurrence = 200, lastMessage = ''boom'',
      environments = [''prod'', ''staging''], servers = [''web1'']\<rparr>"

definition stagingOnly :: filters where
  "stagingOnly = \<lparr>f_project = None, f_environment = Some ''staging'', f_server = None,
                  f_affectedUser = None\<rparr>"

text \<open>A report of a given project, environment, server and time with a userId in its
  context.\<close>

definition reportOf :: "string \<Rightarrow> string \<Rightarrow> string \<Rightarrow> int \<Rightarrow> jvalue \<Rightarrow> report" where
  "reportOf project environment' server' t user =
     \<lparr>x_backtrace = Some ''f:1'', x_environment = Some environment',
      x_message = Some (Some ''boom''), x_project = Some project, x_serverName = Some server',
      x_timestamp = Some (JInt t), x_type = Some ''NullPointer'', x_logMessage = None,
      x_context = Some [(''userId'', user)]\<rparr>"

text \<open>
  Reports of three projects. The error of B is created first and the error of A second,
  and both occur last at 200; the error of C occurs last at 300. Of the seven instances,
  those from staging, on web2, with user 7 are the first of B and the first and the last
  of A.
\<close>

definition listed :: state where
  "listed =
     putExceptions ext0
       [(''<Project B>'', reportOf ''B'' ''staging'' ''web2'' 100 (JStr ''7'')),
        (''<Project B>'', reportOf ''B'' ''prod'' ''web2'' 200 (JInt 7)),
        (''<Project A>'', reportOf ''A'' ''staging'' ''web2'' 150 (JInt 7)),
        (''<Project A>'', reportOf ''A'' ''staging'' ''web1'' 200 (JInt 7)),
        (''<Project A>'', reportOf ''A'' ''staging'' ''web2'' 120 (JInt 8)),
        (''<Project C>'', reportOf ''C'' ''prod'' ''web1'' 300 (JInt 7)),
        (''<Project A>'', reportOf ''A'' ''staging'' ''web2'' 180 (JInt 7))] init"

text \<open>The instance such a report leaves under the key \<open>k\<close>.\<close>

definition userInstance ::
  "ekey \<Rightarrow> string \<Rightarrow> string \<Rightarrow> int \<Rightarrow> jvalue \<Rightarrow> int \<Rightarrow> LoggedErrorInstanceV2" where
  "userInstance k environment' server' t user n =
     \<lparr>parent_key = k, environment = environment', date = t, message = ''boom'',
      server = server', logMessage = None, contextJson = Some [(''userId'', user)],
      affectedUser = Some n\<rparr>"

definition stagingWeb2User7 :: filters where
  "stagingWeb2User7 = \<lparr>f_project = None, f_environment = Some ''staging'',
                        f_server = Some ''web2'', f_affectedUser = Some ''7''\<rparr>"

text \<open>Three instances, 5, 30 and 90 minutes before \<open>now\<close>.\<close>

definition threeInstances :: "int \<Rightarrow> state" where
  "threeInstances now =
     init\<lparr>instances :=
        [newInstance (''P'', 1) ''prod'' ''web1'' ''boom'' (now - 5 * 60) None,
         newInstance (''P'', 1) ''prod'' ''web1'' ''boom'' (now - 30 * 60) None,
         newInstance (''P'', 1) ''prod'' ''web1'' ''boom'' (now - 90 * 60) None]\<rparr>"

text \<open>A report accepted by \<^verbatim>\<open>ReportPage\<close> and waiting in the queue, and one with the bad
  userId.\<close>

definition queued :: state where
  "queued = snd (ReportPage_post ext0 ''secret''
                   (Some (sampleReport ''NullPointer'' ''f:1'' ''prod'' 100)) init)"

definition queuedBad :: state where
  "queuedBad = snd (ReportPage_post ext0 ''secret'' (Some badUserReport) init)"

text \<open>Two reports whose types and normalized backtraces differ and whose hashes are equal:
  the hasher is fed \<open>''AB''\<close> then \<open>''C''\<close> for one, \<open>''A''\<close> then \<open>''BC''\<close> for the other.\<close>

definition reportAB :: report where
  "reportAB = sampleReport ''AB'' ''C'' ''prod'' 100"

definition reportA :: report where
  "reportA = sampleReport ''A'' ''BC'' ''prod'' 200"

text \<open>The first of them put twice: the second time it is found in the datastore, and the
  error is written to memcache.\<close>

definition cachedAB :: state where
  "cachedAB = putExceptions ext0 [(obj, reportAB), (obj, reportAB)] init"

text \<open>
  Three reports of one error, at 100, 150 and 300, the last in a request whose Project
  object has another text: memcache then holds two copies of the error, and the one under
  the first text is the error as it was after the second report.
\<close>

definition staleCache :: state where
  "staleCache =
     putExceptions ext0
       [(obj, sampleReport ''NullPointer'' ''f:1'' ''prod'' 100),
        (obj, sampleReport ''NullPointer'' ''f:2'' ''prod'' 150),
        (otherObj, sampleReport ''NullPointer'' ''f:3'' ''prod'' 300)] init"

text \<open>Two reports of one error of project Q: the error is in memcache under the text of
  the Project object.\<close>

definition cachedQ :: state where
  "cachedQ =
     putExceptions ext0
       [(obj, sampleReport ''NullPointer'' ''f:1'' ''prod'' 100\<lparr>x_project := Some ''Q''\<rparr>),
        (obj, sampleReport ''NullPointer'' ''f:2'' ''prod'' 200\<lparr>x_project := Some ''Q''\<rparr>)] init"

text \<open>Two reports of one error, in requests where the text of the Project object is the
  project's name.\<close>

definition namedTwice :: state where
  "namedTwice =
     putExceptions ext0
       [(''P'', sampleReport ''NullPointer'' ''f:1'' ''prod'' 100),
        (''P'', sampleReport ''NullPointer'' ''f:2'' ''prod'' 200)] init"

section \<open>Basic facts\<close>

lemmas model_defs =
  putException_def putFields_def getAggregatedError_def getProject_def findError_def
  mergeReport_def memcacheKey_def generateHash_def createError_def newError_def
  get_or_insert_def py_str_def alloc_id_def putInstance_def newInstance_def
  int_of_str_def strip_def isspace_def isdigit_def digits_val_def replace_newlines_def
  timestamp_min_def timestamp_max_def
  init_def ext0_def obj_def otherObj_def sampleReport_def reportOf_def Let_def

lemmas sample_defs =
  ReportPage_post_def ReportWorker_post_def alloc_task_def ResolvePage_doAuthenticatedGet_def
  StatPage_get_def getErrors_def filterErrors_def getInstances_def instanceMap_def errorDict_def
  hasInstanceFilters_def instanceMatches_def py_split_def matchingInstances_def activeErrors_def
  activeWithHash_def threeInstances_def stagingOnly_def stagingWeb2User7_def queued_def
  queuedBad_def badUserReport_def reportAB_def reportA_def cachedAB_def

subsection \<open>Projects\<close>

lemma getProject_eq:
  "getProject name s =
     (if projectRaises s name then Inl BadValueError
      else Inr (projectKey s name, withProject name s))"
  by (auto simp: getProject_def projectRaises_def projectKey_def withProject_def get_or_insert_def
      split: option.split)

lemma withProject_fields [simp]:
  "errors (withProject name s) = errors s"
  "instances (withProject name s) = instances s"
  "queue (withProject name s) = queue s"
  "memcache_project (withProject name s) = memcache_project s"
  "memcache_error (withProject name s) = memcache_error s"
  by (simp_all add: withProject_def split: option.split)

lemma projectRaises_cong:
  "memcache_project s' = memcache_project s \<Longrightarrow> projectRaises s' n = projectRaises s n"
  by (simp add: projectRaises_def)

lemma projectKey_cong:
  "memcache_project s' = memcache_project s \<Longrightarrow> projectKey s' n = projectKey s n"
  by (simp add: projectKey_def)

lemma projectRaises_withProject [simp]: "projectRaises (withProject n s) m = projectRaises s m"
  by (simp add: projectRaises_def)

lemma projectKey_withProject [simp]: "projectKey (withProject n s) m = projectKey s m"
  by (simp add: projectKey_def)

lemma withProject_idem [simp]: "withProject n (withProject n s) = withProject n s"
  by (simp add: withProject_def split: option.split)

lemma withProject_new:
  "map_of (memcache_project s) name = None \<Longrightarrow> name \<notin> set (projects s) \<Longrightarrow>
   withProject name s = s\<lparr>projects := projects s @ [name]\<rparr>"
  by (simp add: withProject_def)

lemma findError_withProject [simp]:
  "findError ext key p bt h (withProject name s) = findError ext key p bt h s"
  by (simp add: findError_def cong: option.case_cong)

subsection \<open>Keys and lookups\<close>

lemma alloc_id_gt: "(k, v) \<in> set tbl \<Longrightarrow> snd k < alloc_id tbl"
  unfolding alloc_id_def by (induction tbl) (auto simp: less_Suc_eq_le max_def)

lemma alloc_id_fresh: "(p, alloc_id tbl) \<notin> fst ` set tbl"
  using alloc_id_gt by fastforce

lemma update_fresh: "k \<notin> fst ` set al \<Longrightarrow> AList.update k v al = al @ [(k, v)]"
  by (induction al) auto

lemma update_last: "k \<notin> fst ` set al \<Longrightarrow> AList.update k v (al @ [(k, w)]) = al @ [(k, v)]"
  by (induction al) auto

lemma list_all_update:
  "list_all P al \<Longrightarrow> P (k, v) \<Longrightarrow> list_all P (AList.update k v al)"
  by (induction al) auto

lemma map_of_list_all: "list_all P al \<Longrightarrow> map_of al k = Some v \<Longrightarrow> P (k, v)"
  by (induction al) (auto split: if_splits)

lemma map_of_distinct_in: "distinct (map fst al) \<Longrightarrow> (k, v) \<in> set al \<Longrightarrow> map_of al k = Some v"
  by simp

lemma set_update_cases:
  assumes "distinct (map fst al)" and "(k', e) \<in> set (AList.update k v al)"
  shows "(k' = k \<and> e = v) \<or> ((k', e) \<in> set al \<and> k' \<noteq> k)"
proof -
  have "distinct (map fst (AList.update k v al))" using assms(1) by (simp add: distinct_update)
  with assms(2) have "map_of (AList.update k v al) k' = Some e" by simp
  then have "((map_of al)(k \<mapsto> v)) k' = Some e" by (simp add: update_conv')
  then show ?thesis using assms(1) by (auto split: if_splits)
qed

lemma find_SomeD: "find P xs = Some x \<Longrightarrow> x \<in> set xs \<and> P x"
  by (induction xs) (auto split: if_splits)

lemma sort_key_Nil_iff: "sort_key f xs = [] \<longleftrightarrow> xs = []"
  using length_sort[of f xs] by (metis length_0_conv)

lemma findError_miss:
  "map_of (memcache_error s) key = None \<Longrightarrow>
   findError ext key pk bt h s =
     find (\<lambda>(k, possibility). normalizeBacktrace ext (backtrace possibility) = normalizeBacktrace ext bt)
       (sort_key fst (activeWithHash pk h s))"
  by (simp add: findError_def activeWithHash_def)

lemma findError_SomeD:
  assumes "findError ext key p bt h s = Some (k, g)"
  shows "map_of (memcache_error s) key = Some (k, g) \<or>
         (map_of (memcache_error s) key = None \<and> (k, g) \<in> set (errors s) \<and> fst k = p \<and>
          hash g = h \<and> active g \<and> normalizeBacktrace ext (backtrace g) = normalizeBacktrace ext bt)"
proof (cases "map_of (memcache_error s) key")
  case None
  with assms have f: "find (\<lambda>(k, possibility). normalizeBacktrace ext (backtrace possibility) = normalizeBacktrace ext bt)
            (sort_key fst (activeWithHash p h s)) = Some (k, g)"
    by (simp add: findError_miss)
  from find_SomeD[OF f] have "(k, g) \<in> set (activeWithHash p h s)"
    and "normalizeBacktrace ext (backtrace g) = normalizeBacktrace ext bt"
    by auto
  with None show ?thesis by (auto simp: activeWithHash_def)
next
  case (Some a)
  with assms show ?thesis by (simp add: findError_def)
qed

lemma activeWithHash_append:
  "errors s' = errors s @ [(k, e)] \<Longrightarrow>
   activeWithHash pk h s' = activeWithHash pk h s @ (if fst k = pk \<and> hash e = h \<and> active e then [(k, e)] else [])"
  by (simp add: activeWithHash_def)

subsection \<open>The parts of putException\<close>

lemma mergeReport_ordered:
  "firstOccurrence g \<le> lastOccurrence g \<Longrightarrow>
   firstOccurrence (mergeReport env srv bt msg t g) \<le> lastOccurrence (mergeReport env srv bt msg t g)"
  by (auto simp: mergeReport_def Let_def min_def)

lemma mergeReport_fields:
  "count (mergeReport env srv bt msg t g) = count g + 1"
  "firstOccurrence (mergeReport env srv bt msg t g) = min (firstOccurrence g) t"
  "active (mergeReport env srv bt msg t g) = active g"
  "hash (mergeReport env srv bt msg t g) = hash g"
  "type (mergeReport env srv bt msg t g) = type g"
  "level (mergeReport env srv bt msg t g) = level g"
  "environments (mergeReport env srv bt msg t g) =
     (if env \<in> set (environments g) then environments g else environments g @ [env])"
  "servers (mergeReport env srv bt msg t g) =
     (if srv \<in> set (servers g) then servers g else servers g @ [srv])"
  by (simp_all add: mergeReport_def Let_def)

lemma mergeReport_latest:
  "lastOccurrence (mergeReport env srv bt msg t g) = (if t > lastOccurrence g then t else lastOccurrence g)"
  "backtrace (mergeReport env srv bt msg t g) = (if t > lastOccurrence g then bt else backtrace g)"
  "lastMessage (mergeReport env srv bt msg t g) = (if t > lastOccurrence g then take 300 msg else lastMessage g)"
  by (simp_all add: mergeReport_def Let_def)

lemma newError_fields:
  "active (newError env srv bt ty h msg t)"
  "hash (newError env srv bt ty h msg t) = h"
  "count (newError env srv bt ty h msg t) = 1"
  "backtrace (newError env srv bt ty h msg t) = bt"
  "firstOccurrence (newError env srv bt ty h msg t) = t"
  "lastOccurrence (newError env srv bt ty h msg t) = t"
  by (simp_all add: newError_def Let_def)

lemma putInstance_None:
  assumes "putInstance k env srv msg t lm ctx s = (None, s')"
  shows "\<exists>inst. s' = s\<lparr>instances := instances s @ [inst]\<rparr> \<and> parent_key inst = k \<and>
           environment inst = env \<and> server inst = srv \<and> message inst = msg \<and> date inst = t \<and>
           logMessage inst = lm"
  using assms
  by (auto simp: putInstance_def newInstance_def Let_def split: option.splits if_splits sum.splits)

lemma putInstance_frame:
  "queue (snd (putInstance k env srv msg t lm ctx s)) = queue s"
  "memcache_project (snd (putInstance k env srv msg t lm ctx s)) = memcache_project s"
  "memcache_error (snd (putInstance k env srv msg t lm ctx s)) = memcache_error s"
  "errors (snd (putInstance k env srv msg t lm ctx s)) = errors s"
  "projects (snd (putInstance k env srv msg t lm ctx s)) = projects s"
  by (simp_all add: putInstance_def Let_def split: option.split sum.split)

lemma getAggregatedError_raises:
  "projectRaises s proj \<Longrightarrow>
   getAggregatedError ext p proj env srv bt h msg t s = (Inl BadValueError, s)"
  by (simp add: getAggregatedError_def getProject_eq)

lemma getAggregatedError_found:
  assumes "\<not> projectRaises s proj"
    and "findError ext (memcacheKey p h) (projectKey s proj) bt h s = Some (k, g)"
  shows "getAggregatedError ext p proj env srv bt h msg t s =
           (Inr (Some (k, mergeReport env srv bt msg t g)),
            (withProject proj s)
              \<lparr>errors := AList.update k (mergeReport env srv bt msg t g) (errors s),
               memcache_error := AList.update (memcacheKey p h)
                  (k, mergeReport env srv bt msg t g) (memcache_error s)\<rparr>)"
  using assms by (simp add: getAggregatedError_def getProject_eq Let_def)

lemma getAggregatedError_none:
  assumes "\<not> projectRaises s proj"
    and "findError ext (memcacheKey p h) (projectKey s proj) bt h s = None"
  shows "getAggregatedError ext p proj env srv bt h msg t s = (Inr None, withProject proj s)"
  using assms by (simp add: getAggregatedError_def getProject_eq Let_def)

lemma createError_eq:
  "createError proj env srv bt ty h msg t s =
     (if projectRaises s proj then (Inl BadValueError, s)
      else if isl (py_str env) then (Inl UnicodeEncodeError, withProject proj s)
      else (Inr (projectKey s proj, alloc_id (errors s)),
            (withProject proj s)
              \<lparr>errors := errors s @ [((projectKey s proj, alloc_id (errors s)),
                                     newError env srv bt ty h msg t)]\<rparr>))"
  by (simp add: createError_def getProject_eq py_str_def Let_def)

lemma putFields_raises:
  "projectRaises s proj \<Longrightarrow>
   putFields ext p bt env msg proj srv t ty lm ctx s = (Some BadValueError, s)"
  by (simp add: putFields_def getAggregatedError_raises Let_def)

lemma putFields_None_project:
  "putFields ext p bt env msg proj srv t ty lm ctx s = (None, s') \<Longrightarrow> \<not> projectRaises s proj"
  by (auto simp: putFields_raises)

lemma putFields_found:
  assumes "\<not> projectRaises s proj"
    and "findError ext (memcacheKey p (generateHash ext ty bt)) (projectKey s proj) bt
             (generateHash ext ty bt) s = Some (k, g)"
  shows "putFields ext p bt env msg proj srv t ty lm ctx s =
         putInstance k env srv msg t lm ctx
           ((withProject proj s)
              \<lparr>errors := AList.update k (mergeReport env srv bt msg t g) (errors s),
               memcache_error := AList.update (memcacheKey p (generateHash ext ty bt))
                  (k, mergeReport env srv bt msg t g) (memcache_error s)\<rparr>)"
  by (simp add: putFields_def getAggregatedError_found[OF assms] Let_def)

lemma putFields_created:
  assumes "\<not> projectRaises s proj"
    and "findError ext (memcacheKey p (generateHash ext ty bt)) (projectKey s proj) bt
             (generateHash ext ty bt) s = None"
  shows "putFields ext p bt env msg proj srv t ty lm ctx s =
         (if isl (py_str env) then (Some UnicodeEncodeError, withProject proj s)
          else putInstance (projectKey s proj, alloc_id (errors s)) env srv msg t lm ctx
                ((withProject proj s)
                   \<lparr>errors := errors s @ [((projectKey s proj, alloc_id (errors s)),
                       newError env srv bt ty (generateHash ext ty bt) msg t)]\<rparr>))"
  using assms(1)
  by (simp add: putFields_def getAggregatedError_none[OF assms] createError_eq Let_def)

text \<open>A report with all its fields that \<open>putException\<close> accepts: its timestamp converts, and
  the rest is \<open>putFields\<close>.\<close>

lemma putException_fields_None:
  assumes "x_backtrace r = Some bt" "x_environment r = Some env" "x_message r = Some m"
    "x_project r = Some proj" "x_serverName r = Some srv" "x_timestamp r = Some (JInt t)"
    "x_type r = Some ty"
    and "putException ext p r s = (None, s')"
  shows "putFields ext p bt env (case m of None \<Rightarrow> [] | Some x \<Rightarrow> x) proj srv t ty
           (x_logMessage r) (x_context r) s = (None, s')"
  using assms by (simp add: putException_def split: if_splits)

subsection \<open>What a report leaves alone\<close>

lemma putFields_frame:
  "queue (snd (putFields ext p bt env msg proj srv t ty lm ctx s)) = queue s \<and>
   memcache_project (snd (putFields ext p bt env msg proj srv t ty lm ctx s)) = memcache_project s"
proof (cases "projectRaises s proj")
  case True
  then show ?thesis by (simp add: putFields_raises)
next
  case False
  show ?thesis
  proof (cases "findError ext (memcacheKey p (generateHash ext ty bt)) (projectKey s proj) bt
             (generateHash ext ty bt) s")
    case None
    show ?thesis unfolding putFields_created[OF False None] by (simp add: putInstance_frame)
  next
    case (Some a)
    obtain k g where a: "a = (k, g)" by (cases a)
    have f: "findError ext (memcacheKey p (generateHash ext ty bt)) (projectKey s proj) bt
             (generateHash ext ty bt) s = Some (k, g)"
      using Some a by simp
    show ?thesis unfolding putFields_found[OF False f] by (simp add: putInstance_frame)
  qed
qed

lemma putException_frame:
  "queue (snd (putException ext p r s)) = queue s"
  "memcache_project (snd (putException ext p r s)) = memcache_project s"
  by (simp_all add: putException_def putFields_frame split: option.split sum.split)

subsection \<open>First and last occurrence\<close>

lemma findError_ordered:
  assumes "ordered_times s" "findError ext key pk bt h s = Some (k, g)"
  shows "firstOccurrence g \<le> lastOccurrence g"
proof -
  from findError_SomeD[OF assms(2)] show ?thesis
  proof
    assume "map_of (memcache_error s) key = Some (k, g)"
    with assms(1) map_of_list_all[of "\<lambda>(key, k, e). firstOccurrence e \<le> lastOccurrence e" "memcache_error s" key "(k, g)"]
    show ?thesis by (simp add: ordered_times_def)
  next
    assume "map_of (memcache_error s) key = None \<and> (k, g) \<in> set (errors s) \<and> fst k = pk \<and>
          hash g = h \<and> active g \<and> normalizeBacktrace ext (backtrace g) = normalizeBacktrace ext bt"
    with assms(1) show ?thesis by (auto simp: ordered_times_def list_all_iff)
  qed
qed

lemma ordered_times_withProject [simp]: "ordered_times (withProject n s) = ordered_times s"
  by (simp add: ordered_times_def)

lemma putInstance_ordered:
  "ordered_times (snd (putInstance k env srv msg t lm ctx s)) = ordered_times s"
  by (simp add: ordered_times_def putInstance_frame)

lemma putFields_ordered:
  assumes "ordered_times s"
  shows "ordered_times (snd (putFields ext p bt env msg proj srv t ty lm ctx s))"
proof (cases "projectRaises s proj")
  case True
  then show ?thesis using assms by (simp add: putFields_raises)
next
  case False
  show ?thesis
  proof (cases "findError ext (memcacheKey p (generateHash ext ty bt)) (projectKey s proj) bt
             (generateHash ext ty bt) s")
    case None
    have "ordered_times ((withProject proj s)
                   \<lparr>errors := errors s @ [((projectKey s proj, alloc_id (errors s)),
                       newError env srv bt ty (generateHash ext ty bt) msg t)]\<rparr>)"
      using assms by (simp add: ordered_times_def newError_fields)
    then show ?thesis
      unfolding putFields_created[OF False None] using assms by (simp add: putInstance_ordered)
  next
    case (Some a)
    obtain k g where a: "a = (k, g)" by (cases a)
    have f: "findError ext (memcacheKey p (generateHash ext ty bt)) (projectKey s proj) bt
             (generateHash ext ty bt) s = Some (k, g)"
      using Some a by simp
    have "firstOccurrence g \<le> lastOccurrence g" using findError_ordered[OF assms f] .
    then have m: "firstOccurrence (mergeReport env srv bt msg t g) \<le> lastOccurrence (mergeReport env srv bt msg t g)"
      by (rule mergeReport_ordered)
    have "ordered_times ((withProject proj s)
              \<lparr>errors := AList.update k (mergeReport env srv bt msg t g) (errors s),
               memcache_error := AList.update (memcacheKey p (generateHash ext ty bt))
                  (k, mergeReport env srv bt msg t g) (memcache_error s)\<rparr>)"
      using assms m by (simp add: ordered_times_def list_all_update)
    then show ?thesis
      unfolding putFields_found[OF False f] by (simp add: putInstance_ordered)
  qed
qed

lemma putException_ordered:
  "ordered_times s \<Longrightarrow> ordered_times (snd (putException ext p r s))"
  by (simp add: putException_def putFields_ordered split: option.split sum.split)

lemma putExceptions_ordered:
  "ordered_times s \<Longrightarrow> ordered_times (putExceptions ext rs s)"
  by (induction rs arbitrary: s) (auto simp: putException_ordered)

subsection \<open>A report that misses the cache\<close>

text \<open>After a report that missed the cache and was accepted: the error it went to.\<close>

lemma putFields_miss_None:
  assumes miss: "map_of (memcache_error s) (memcacheKey p (generateHash ext ty bt)) = None"
    and ok: "putFields ext p bt env msg proj srv t ty lm ctx s = (None, s')"
  shows "\<exists>k e inst. errors s' = AList.update k e (errors s) \<and>
           instances s' = instances s @ [inst] \<and> parent_key inst = k \<and>
           active e \<and> normalizeBacktrace ext (backtrace e) = normalizeBacktrace ext bt \<and>
           (k \<in> fst ` set (errors s) \<longrightarrow>
              (\<exists>g. (k, g) \<in> set (errors s) \<and>
                   normalizeBacktrace ext (backtrace g) = normalizeBacktrace ext bt))"
proof (cases "findError ext (memcacheKey p (generateHash ext ty bt)) (projectKey s proj) bt
             (generateHash ext ty bt) s")
  case None
  have nr: "\<not> projectRaises s proj" using ok by (rule putFields_None_project)
  define k where "k = (projectKey s proj, alloc_id (errors s))"
  define e where "e = newError env srv bt ty (generateHash ext ty bt) msg t"
  define sa where "sa = (withProject proj s)\<lparr>errors := errors s @ [(k, e)]\<rparr>"
  have "putFields ext p bt env msg proj srv t ty lm ctx s =
        (if isl (py_str env) then (Some UnicodeEncodeError, withProject proj s)
         else putInstance k env srv msg t lm ctx sa)"
    unfolding k_def e_def sa_def by (rule putFields_created[OF nr None])
  with ok have pi: "putInstance k env srv msg t lm ctx sa = (None, s')"
    by (simp split: if_splits)
  from putInstance_None[OF pi] obtain inst where s': "s' = sa\<lparr>instances := instances sa @ [inst]\<rparr>"
    and ik: "parent_key inst = k"
    by blast
  have fresh: "k \<notin> fst ` set (errors s)" unfolding k_def by (rule alloc_id_fresh)
  have "errors s' = AList.update k e (errors s)"
    using fresh by (simp add: s' sa_def update_fresh)
  moreover have "instances s' = instances s @ [inst]"
    by (simp add: s' sa_def)
  moreover have "active e" "normalizeBacktrace ext (backtrace e) = normalizeBacktrace ext bt"
    by (simp_all add: e_def newError_fields)
  ultimately show ?thesis using ik fresh by blast
next
  case (Some a)
  have nr: "\<not> projectRaises s proj" using ok by (rule putFields_None_project)
  obtain k g where a: "a = (k, g)" by (cases a)
  define e where "e = mergeReport env srv bt msg t g"
  define sb where "sb = (withProject proj s)
              \<lparr>errors := AList.update k e (errors s),
               memcache_error := AList.update (memcacheKey p (generateHash ext ty bt)) (k, e) (memcache_error s)\<rparr>"
  have f: "findError ext (memcacheKey p (generateHash ext ty bt)) (projectKey s proj) bt
             (generateHash ext ty bt) s = Some (k, g)"
    using Some a by simp
  from findError_SomeD[OF f] miss have g: "(k, g) \<in> set (errors s)" "active g"
    "normalizeBacktrace ext (backtrace g) = normalizeBacktrace ext bt"
    by auto
  have "putFields ext p bt env msg proj srv t ty lm ctx s = putInstance k env srv msg t lm ctx sb"
    unfolding e_def sb_def by (rule putFields_found[OF nr f])
  with ok have pi: "putInstance k env srv msg t lm ctx sb = (None, s')" by simp
  from putInstance_None[OF pi] obtain inst where s': "s' = sb\<lparr>instances := instances sb @ [inst]\<rparr>"
    and ik: "parent_key inst = k"
    by blast
  have "errors s' = AList.update k e (errors s)" by (simp add: s' sb_def)
  moreover have "instances s' = instances s @ [inst]"
    by (simp add: s' sb_def)
  moreover have "active e" "normalizeBacktrace ext (backtrace e) = normalizeBacktrace ext bt"
    using g by (simp_all add: e_def mergeReport_fields mergeReport_latest)
  ultimately show ?thesis using ik g by blast
qed

subsection \<open>Handlers\<close>

lemma length_filter_sort: "length (filter P (sort xs)) = length (filter P xs)"
  by (simp add: filter_sort)

lemma ReportWorker_gone: "map_of (queue s) key = None \<Longrightarrow> ReportWorker_post ext p key s = (None, s)"
  by (simp add: ReportWorker_post_def)

lemma ReportWorker_memcache_project:
  "memcache_project (snd (ReportWorker_post ext p k s)) = memcache_project s"
proof (cases "map_of (queue s) k")
  case None
  then show ?thesis by (simp add: ReportWorker_post_def)
next
  case (Some task)
  show ?thesis
  proof (cases task)
    case None
    with Some show ?thesis by (simp add: ReportWorker_post_def)
  next
    case (Some exception)
    obtain r s1 where pe: "putException ext p exception s = (r, s1)"
      by (cases "putException ext p exception s")
    have "memcache_project s1 = memcache_project s"
      using putException_frame(2)[of ext p exception s] pe by simp
    with Some \<open>map_of (queue s) k = Some task\<close> pe show ?thesis
      by (cases r) (simp_all add: ReportWorker_post_def)
  qed
qed

lemma ResolvePage_found:
  "map_of (errors s) k = Some g \<Longrightarrow>
   ResolvePage_doAuthenticatedGet k s =
     (None, s\<lparr>errors := AList.update k (g\<lparr>active := False\<rparr>) (errors s),
              memcache_error := AList.delete (memcacheKey (fst k) (hash g)) (memcache_error s)\<rparr>)"
  by (simp add: ResolvePage_doAuthenticatedGet_def Let_def)

text \<open>The state the two reading handlers leave.\<close>

lemma getErrors_snd:
  "snd (getErrors fs limit offset s) =
     (case f_project fs of
        None \<Rightarrow> s
      | Some name \<Rightarrow> if projectRaises s name then s else withProject name s)"
  by (simp add: getErrors_def getProject_eq Let_def split: option.split sum.split)

lemma StatPage_get_snd:
  "snd (StatPage_get ext now key project minutes s) =
     (if key = SECRET_KEY ext \<and> project \<noteq> [] then withProject project s else s)"
  by (simp add: StatPage_get_def getProject_eq projectRaises_def split: sum.split)

lemma getErrors_raises:
  "f_project fs = Some name \<Longrightarrow> projectRaises s name \<Longrightarrow>
   getErrors fs limit offset s = (Inl BadValueError, s)"
  by (simp add: getErrors_def getProject_eq)

lemma handle_memcache_project: "memcache_project (handle ext r s) = memcache_project s"
proof (cases r)
  case (Report k b) then show ?thesis by (simp add: ReportPage_post_def Let_def)
next
  case (Work p k)
  then show ?thesis by (simp add: ReportWorker_memcache_project)
next
  case (Resolve k) then show ?thesis
    by (simp add: ResolvePage_doAuthenticatedGet_def Let_def split: option.splits)
next
  case (ListErrors fs l off) then show ?thesis
    by (simp add: getErrors_snd split: option.split)
next
  case (Stats n k p m) then show ?thesis
    by (simp add: StatPage_get_snd)
qed

lemma serve_memcache_project: "memcache_project (serve ext rs s) = memcache_project s"
  by (induction rs arbitrary: s) (simp_all add: handle_memcache_project)

subsection \<open>Listing\<close>

lemma foldl_instanceMap:
  "foldl (\<lambda>m instance. m(parent_key instance := m (parent_key instance) @ [instance])) m0 insts k
   = m0 k @ filter (\<lambda>i. parent_key i = k) insts"
  by (induction insts arbitrary: m0) auto

lemma instanceMap_filter: "instanceMap insts k = filter (\<lambda>i. parent_key i = k) insts"
  by (simp add: instanceMap_def foldl_instanceMap)

lemma hd_sort_key_Max:
  assumes "xs \<noteq> []"
  shows "date (hd (sort_key (\<lambda>x. - date x) xs)) = Max (date ` set xs)"
proof -
  define ys where "ys = sort_key (\<lambda>x. - date x) xs"
  have ne: "ys \<noteq> []" using assms by (simp add: ys_def sort_key_Nil_iff)
  then obtain y rest where ys: "ys = y # rest" by (cases ys) auto
  have "sorted (map (\<lambda>x. - date x) ys)" by (simp add: ys_def)
  then have le: "\<forall>z \<in> set ys. date z \<le> date y" by (auto simp: ys)
  have s: "set ys = set xs" by (simp add: ys_def)
  have "Max (date ` set xs) = date y"
  proof (rule Max_eqI)
    show "finite (date ` set xs)" by simp
    show "\<And>d. d \<in> date ` set xs \<Longrightarrow> d \<le> date y" using le s by auto
    show "date y \<in> date ` set xs" using s ys by auto
  qed
  then show ?thesis by (simp add: ys_def[symmetric] ys)
qed

lemma concat_views_keys:
  "map fst (concat (map (\<lambda>(k, e). if P k then [(k, F k e)] else []) errs))
   = map fst (filter (\<lambda>(k, e). P k) errs)"
  by (induction errs) auto

lemma concat_views_mem:
  "(k, v) \<in> set (concat (map (\<lambda>(k, e). if P k then [(k, F k e)] else []) errs)) \<Longrightarrow>
   \<exists>e. (k, e) \<in> set errs \<and> P k \<and> v = F k e"
  by (induction errs) (auto split: if_splits)

lemma int_of_str_Inl: "int_of_str v = Inl e \<Longrightarrow> e = ValueError"
  by (simp add: int_of_str_def Let_def split: if_splits)

text \<open>The rows \<open>getInstances\<close> keeps are the occurrences that match the filters.\<close>

lemma instanceMatches_matching:
  assumes "f_affectedUser fs = None \<or> (\<exists>text n. f_affectedUser fs = Some text \<and> int_of_str text = Inr n)"
  shows "instanceMatches (f_environment fs) (f_server fs)
           (case f_affectedUser fs of
              None \<Rightarrow> None
            | Some text \<Rightarrow> (case int_of_str text of Inl e \<Rightarrow> None | Inr n \<Rightarrow> Some n)) i
         \<longleftrightarrow>
         ((f_environment fs = None \<or> f_environment fs = Some (environment i)) \<and>
          (f_server fs = None \<or> f_server fs = Some (server i)) \<and>
          (case f_affectedUser fs of
             None \<Rightarrow> True
           | Some text \<Rightarrow>
               (case affectedUser i of None \<Rightarrow> False | Some n \<Rightarrow> int_of_str text = Inr n)))"
  using assms by (auto simp: instanceMatches_def split: option.splits)

lemma getInstances_parsed:
  assumes "f_affectedUser fs = None \<or> (\<exists>text n. f_affectedUser fs = Some text \<and> int_of_str text = Inr n)"
  shows "getInstances fs None s =
         Inr (sort_key (\<lambda>i. (- date i, parent_key i))
               (filter (instanceMatches (f_environment fs) (f_server fs)
                    (case f_affectedUser fs of None \<Rightarrow> None
                     | Some text \<Rightarrow> (case int_of_str text of Inl e \<Rightarrow> None | Inr n \<Rightarrow> Some n)))
                  (instances s)))"
  using assms by (auto simp: getInstances_def split: option.splits sum.splits)

lemma getInstances_unparsed:
  assumes "f_affectedUser fs = Some text" "isl (int_of_str text)"
  shows "getInstances fs parent s = Inl ValueError"
proof -
  from assms(2) obtain e where e: "int_of_str text = Inl e" by (cases "int_of_str text") auto
  with int_of_str_Inl have "int_of_str text = Inl ValueError" by blast
  with assms(1) show ?thesis by (simp add: getInstances_def)
qed

lemma found_for_key:
  assumes "f_affectedUser fs = None \<or> (\<exists>text n. f_affectedUser fs = Some text \<and> int_of_str text = Inr n)"
  shows "\<exists>found. getInstances fs None s = Inr found \<and>
           (\<forall>k. instanceMap found k =
                  sort_key (\<lambda>i. (- date i, parent_key i)) (matchingInstances fs k s))"
proof -
  define user where "user = (case f_affectedUser fs of None \<Rightarrow> None
                     | Some text \<Rightarrow> (case int_of_str text of Inl e \<Rightarrow> None | Inr n \<Rightarrow> Some n))"
  define found where "found = sort_key (\<lambda>i. (- date i, parent_key i))
               (filter (instanceMatches (f_environment fs) (f_server fs) user) (instances s))"
  have g: "getInstances fs None s = Inr found"
    unfolding found_def user_def by (rule getInstances_parsed[OF assms])
  have "instanceMap found k =
          sort_key (\<lambda>i. (- date i, parent_key i)) (matchingInstances fs k s)" for k
  proof -
    have "filter (\<lambda>i. parent_key i = k)
            (filter (instanceMatches (f_environment fs) (f_server fs) user) (instances s))
          = matchingInstances fs k s"
      unfolding matchingInstances_def filter_filter
      by (rule filter_cong[OF refl])
         (use instanceMatches_matching[OF assms] in \<open>auto simp: user_def\<close>)
    then show ?thesis
      by (simp add: instanceMap_filter found_def filter_sort)
  qed
  with g show ?thesis by blast
qed

lemma errorDict_fields:
  assumes "M \<noteq> []"
  shows "count (errorDict e (sort_key f M)) = int (length M)"
    "lastOccurrence (errorDict e (sort_key f M)) = Max (date ` set M)"
    "set (environments (errorDict e (sort_key f M))) = environment ` set M"
    "distinct (environments (errorDict e (sort_key f M)))"
    "set (servers (errorDict e (sort_key f M))) = server ` set M"
    "distinct (servers (errorDict e (sort_key f M)))"
    "backtrace (errorDict e (sort_key f M)) = backtrace e"
    "type (errorDict e (sort_key f M)) = type e"
    "hash (errorDict e (sort_key f M)) = hash e"
    "active (errorDict e (sort_key f M)) = active e"
    "level (errorDict e (sort_key f M)) = level e"
    "firstOccurrence (errorDict e (sort_key f M)) = firstOccurrence e"
    "lastMessage (errorDict e (sort_key f M)) = lastMessage e"
proof -
  have "sort_key f M \<noteq> []" using assms by (simp add: sort_key_Nil_iff)
  from hd_sort_key_Max[OF this]
  show "lastOccurrence (errorDict e (sort_key f M)) = Max (date ` set M)"
    by (simp add: errorDict_def)
qed (simp_all add: errorDict_def)

lemma filterErrors_parsed:
  assumes "f_affectedUser fs = None \<or> (\<exists>text n. f_affectedUser fs = Some text \<and> int_of_str text = Inr n)"
  shows "filterErrors errs fs s =
         Inr (concat (map (\<lambda>(k, error).
                 if matchingInstances fs k s \<noteq> []
                 then [(k, errorDict error
                          (sort_key (\<lambda>i. (- date i, parent_key i)) (matchingInstances fs k s)))]
                 else []) errs))"
proof -
  from found_for_key[OF assms, of s] obtain found where
    g: "getInstances fs None s = Inr found"
    and im: "\<And>k. instanceMap found k =
                  sort_key (\<lambda>i. (- date i, parent_key i)) (matchingInstances fs k s)"
    by blast
  show ?thesis by (simp add: filterErrors_def g im Let_def sort_key_Nil_iff)
qed

lemma filterErrors_unparsed:
  assumes "f_affectedUser fs = Some text" "isl (int_of_str text)"
  shows "filterErrors errs fs s = Inl ValueError"
  by (simp add: filterErrors_def getInstances_unparsed[OF assms])

lemma getInstances_withProject [simp]:
  "getInstances fs parent (withProject n s) = getInstances fs parent s"
  by (simp add: getInstances_def cong: sum.case_cong)

lemma filterErrors_withProject [simp]:
  "filterErrors errs fs (withProject n s) = filterErrors errs fs s"
  by (simp add: filterErrors_def)

lemma getErrors_eq:
  assumes "case f_project fs of None \<Rightarrow> True | Some name \<Rightarrow> \<not> projectRaises s name"
    and "hasInstanceFilters fs"
  shows "fst (getErrors fs limit offset s) =
     (if offset + limit = 0 then Inr []
      else (case filterErrors (sort_key (\<lambda>(k, e). (- lastOccurrence e, k)) (activeErrors fs s)) fs s of
              Inl e \<Rightarrow> Inl e
            | Inr views \<Rightarrow> Inr (take limit (drop offset views))))"
proof (cases "f_project fs")
  case None
  then show ?thesis
    using assms(2) by (simp add: getErrors_def activeErrors_def Let_def split: sum.split)
next
  case (Some name)
  with assms(1) have "\<not> projectRaises s name" by simp
  with Some show ?thesis
    using assms(2) by (simp add: getErrors_def getProject_eq activeErrors_def Let_def split: sum.split)
qed

subsection \<open>Sample states\<close>

lemma threeReports_eq:
  "threeReports =
    \<lparr>projects = [''P''],
     errors = [((''P'', 1),
        \<lparr>backtrace = ''f:2'', type = ''NullPointer'', hash = ''NullPointerf'', active = True,
         count = 3, level = 30, firstOccurrence = 100, lastOccurrence = 200, lastMessage = ''boom'',
         environments = [''prod'', ''staging''], servers = [''web1'']\<rparr>)],
     instances = [newInstance (''P'', 1) ''prod'' ''web1'' ''boom'' 100 None,
                  newInstance (''P'', 1) ''prod'' ''web1'' ''boom'' 200 None,
                  newInstance (''P'', 1) ''staging'' ''web1'' ''boom'' 150 None],
     queue = [], memcache_project = [],
     memcache_error = [(''<Project object>|NullPointerf'', (''P'', 1),
        \<lparr>backtrace = ''f:2'', type = ''NullPointer'', hash = ''NullPointerf'', active = True,
         count = 3, level = 30, firstOccurrence = 100, lastOccurrence = 200, lastMessage = ''boom'',
         environments = [''prod'', ''staging''], servers = [''web1'']\<rparr>)]\<rparr>"
  by (simp add: threeReports_def model_defs)

lemma namedTwice_eq:
  "namedTwice =
    \<lparr>projects = [''P''],
     errors = [((''P'', 1), sampleGroup\<lparr>count := 2, environments := [''prod'']\<rparr>)],
     instances = [newInstance (''P'', 1) ''prod'' ''web1'' ''boom'' 100 None,
                  newInstance (''P'', 1) ''prod'' ''web1'' ''boom'' 200 None],
     queue = [], memcache_project = [],
     memcache_error = [(''P|NullPointerf'', (''P'', 1),
                        sampleGroup\<lparr>count := 2, environments := [''prod'']\<rparr>)]\<rparr>"
  by (simp add: namedTwice_def sampleGroup_def model_defs)

lemma listed_eq:
  "listed =
    \<lparr>projects = [''B'', ''A'', ''C''],
     errors =
       [((''B'', 1),
         \<lparr>backtrace = ''f:1'', type = ''NullPointer'', hash = ''NullPointerf'', active = True,
          count = 2, level = 30, firstOccurrence = 100, lastOccurrence = 200,
          lastMessage = ''boom'', environments = [''staging'', ''prod''], servers = [''web2'']\<rparr>),
        ((''A'', 2),
         \<lparr>backtrace = ''f:1'', type = ''NullPointer'', hash = ''NullPointerf'', active = True,
          count = 4, level = 30, firstOccurrence = 120, lastOccurrence = 200,
          lastMessage = ''boom'', environments = [''staging''], servers = [''web2'', ''web1'']\<rparr>),
        ((''C'', 3),
         \<lparr>backtrace = ''f:1'', type = ''NullPointer'', hash = ''NullPointerf'', active = True,
          count = 1, level = 30, firstOccurrence = 300, lastOccurrence = 300,
          lastMessage = ''boom'', environments = [''prod''], servers = [''web1'']\<rparr>)],
     instances =
       [userInstance (''B'', 1) ''staging'' ''web2'' 100 (JStr ''7'') 7,
        userInstance (''B'', 1) ''prod'' ''web2'' 200 (JInt 7) 7,
        userInstance (''A'', 2) ''staging'' ''web2'' 150 (JInt 7) 7,
        userInstance (''A'', 2) ''staging'' ''web1'' 200 (JInt 7) 7,
        userInstance (''A'', 2) ''staging'' ''web2'' 120 (JInt 8) 8,
        userInstance (''C'', 3) ''prod'' ''web1'' 300 (JInt 7) 7,
        userInstance (''A'', 2) ''staging'' ''web2'' 180 (JInt 7) 7],
     queue = [], memcache_project = [],
     memcache_error =
       [(''<Project B>|NullPointerf'', (''B'', 1),
         \<lparr>backtrace = ''f:1'', type = ''NullPointer'', hash = ''NullPointerf'', active = True,
          count = 2, level = 30, firstOccurrence = 100, lastOccurrence = 200,
          lastMessage = ''boom'', environments = [''staging'', ''prod''], servers = [''web2'']\<rparr>),
        (''<Project A>|NullPointerf'', (''A'', 2),
         \<lparr>backtrace = ''f:1'', type = ''NullPointer'', hash = ''NullPointerf'', active = True,
          count = 4, level = 30, firstOccurrence = 120, lastOccurrence = 200,
          lastMessage = ''boom'', environments = [''staging''], servers = [''web2'', ''web1'']\<rparr>)]\<rparr>"
  by (simp add: listed_def userInstance_def model_defs)

section \<open>Malformed reports\<close>

text \<open>
  C3 fails on the code. \<open>putException\<close> refuses a report whose context has a userId that
  is not a number, but not before it has written: the conversion \<^verbatim>\<open>int(context['userId'])\<close>
  of line 318 runs after \<^verbatim>\<open>error.put()\<close> of line 307 or 271. Put into the empty datastore,
  the report \<open>badUserReport\<close> raises ValueError and leaves a Project and an error that has
  no instance; put after the three reports of \<open>threeReports\<close>, it raises and leaves the
  count of their error at 4 with three instances stored.
\<close>

theorem unparsable_userId_leaves_error:
  "putException ext0 obj badUserReport init
   = (Some ValueError,
      init\<lparr>projects := [''P''],
           errors := [((''P'', 1),
             newError ''prod'' ''web1'' ''f:1'' ''NullPointer'' ''NullPointerf'' ''boom'' 100)]\<rparr>) \<and>
   snd (putException ext0 obj badUserReport init) \<noteq> init \<and>
   map (\<lambda>(k, e). (k, count e)) (errors threeReports) = [((''P'', 1), 3)] \<and>
   fst (putException ext0 obj badUserReport threeReports) = Some ValueError \<and>
   map (\<lambda>(k, e). (k, count e)) (errors (snd (putException ext0 obj badUserReport threeReports)))
     = [((''P'', 1), 4)] \<and>
   instances (snd (putException ext0 obj badUserReport threeReports)) = instances threeReports"
  by (simp add: threeReports_eq model_defs badUserReport_def)

text \<open>
  X5. A report that lacks one of the keys backtrace, environment, message, project,
  serverName, timestamp and type, or whose timestamp does not convert (it is no number,
  or a number outside the years 1 to 9999), makes \<open>putException\<close> raise KeyError, TypeError
  or ValueError, and the datastore, the queue and memcache are what they were.
\<close>

theorem missing_field_rejected_unchanged:
  "missingField r \<Longrightarrow>
   \<exists>e. putException ext projectStr r s = (Some e, s) \<and>
       ((\<exists>field. e = KeyError field) \<or> e = TypeError \<or> e = ValueError)"
proof -
  assume m: "missingField r"
  have ft: "e = TypeError \<or> e = ValueError" if "fromtimestamp v = Inl e" for v e
    using that by (cases v) (auto split: if_splits)
  show ?thesis
  proof (cases "x_backtrace r = None \<or> x_environment r = None \<or> x_message r = None \<or>
      x_project r = None \<or> x_serverName r = None \<or> x_timestamp r = None")
    case True
    then show ?thesis
      by (auto simp: putException_def split: option.splits)
  next
    case False
    then obtain bt env msg proj srv tv where f: "x_backtrace r = Some bt" "x_environment r = Some env"
      "x_message r = Some msg" "x_project r = Some proj" "x_serverName r = Some srv"
      "x_timestamp r = Some tv"
      by auto
    show ?thesis
    proof (cases "fromtimestamp tv")
      case (Inl e)
      with ft[OF Inl] f show ?thesis by (auto simp: putException_def)
    next
      case (Inr t)
      with m f have "x_type r = None" by (simp add: missingField_def)
      with Inr f show ?thesis by (simp add: putException_def)
    qed
  qed
qed

theorem missing_field_rejected_unchanged_witness:
  "missingField (sampleReport ''E'' ''f:1'' ''prod'' 100\<lparr>x_type := None\<rparr>) \<and>
   missingField (sampleReport ''E'' ''f:1'' ''prod'' 253402300800) \<and>
   putException ext0 obj (sampleReport ''E'' ''f:1'' ''prod'' 253402300800) threeReports
     = (Some ValueError, threeReports) \<and>
   (\<exists>e. putException ext0 obj (sampleReport ''E'' ''f:1'' ''prod'' 100\<lparr>x_type := None\<rparr>) threeReports
          = (Some e, threeReports) \<and>
        ((\<exists>field. e = KeyError field) \<or> e = TypeError \<or> e = ValueError))"
proof -
  have m: "missingField (sampleReport ''E'' ''f:1'' ''prod'' 100\<lparr>x_type := None\<rparr>)"
    by (simp add: missingField_def sampleReport_def)
  have m2: "missingField (sampleReport ''E'' ''f:1'' ''prod'' 253402300800)"
    by (simp add: missingField_def sampleReport_def timestamp_min_def timestamp_max_def)
  have v: "putException ext0 obj (sampleReport ''E'' ''f:1'' ''prod'' 253402300800) threeReports
     = (Some ValueError, threeReports)"
    by (simp add: putException_def sampleReport_def timestamp_min_def timestamp_max_def)
  from missing_field_rejected_unchanged[OF m, of ext0 obj threeReports] m m2 v
  show ?thesis by simp
qed

section \<open>First and last occurrence\<close>

text \<open>
  C5. After any sequence of reports put into the empty datastore, every stored error has
  its first occurrence no later than its last; and one more report keeps this true of
  every stored and every cached error, whether it creates an error, merges into one or
  raises.
\<close>

theorem first_le_last_after_reports:
  "list_all (\<lambda>(k, e). firstOccurrence e \<le> lastOccurrence e) (errors (putExceptions ext rs init)) \<and>
   (ordered_times s \<longrightarrow> ordered_times (snd (putException ext projectStr r s)))"
proof -
  have "ordered_times init" by (simp add: ordered_times_def init_def)
  then have "ordered_times (putExceptions ext rs init)" by (rule putExceptions_ordered)
  then have "list_all (\<lambda>(k, e). firstOccurrence e \<le> lastOccurrence e)
               (errors (putExceptions ext rs init))"
    by (simp add: ordered_times_def)
  then show ?thesis by (simp add: putException_ordered)
qed

theorem first_le_last_after_reports_witness:
  "map (\<lambda>(k, e). (firstOccurrence e, lastOccurrence e))
     (errors (putExceptions ext0
        [(obj, sampleReport ''E'' ''f:1'' ''prod'' 100), (obj, sampleReport ''E'' ''f:2'' ''prod'' 200),
         (obj, sampleReport ''E'' ''f:3'' ''staging'' 150)] init)) = [(100, 200)] \<and>
   list_all (\<lambda>(k, e). firstOccurrence e \<le> lastOccurrence e)
     (errors (putExceptions ext0
        [(obj, sampleReport ''E'' ''f:1'' ''prod'' 100), (obj, sampleReport ''E'' ''f:2'' ''prod'' 200),
         (obj, sampleReport ''E'' ''f:3'' ''staging'' 150)] init)) \<and>
   ordered_times init \<and>
   ordered_times (snd (putException ext0 obj (sampleReport ''E'' ''f:1'' ''prod'' 100) init))"
proof -
  have o: "ordered_times init" by (simp add: ordered_times_def init_def)
  have v: "map (\<lambda>(k, e). (firstOccurrence e, lastOccurrence e))
     (errors (putExceptions ext0
        [(obj, sampleReport ''E'' ''f:1'' ''prod'' 100), (obj, sampleReport ''E'' ''f:2'' ''prod'' 200),
         (obj, sampleReport ''E'' ''f:3'' ''staging'' 150)] init)) = [(100, 200)]"
    by (simp add: model_defs)
  from first_le_last_after_reports[of ext0
        "[(obj, sampleReport ''E'' ''f:1'' ''prod'' 100), (obj, sampleReport ''E'' ''f:2'' ''prod'' 200),
         (obj, sampleReport ''E'' ''f:3'' ''staging'' 150)]" init obj "sampleReport ''E'' ''f:1'' ''prod'' 100"]
    o v show ?thesis by simp
qed

section \<open>Merging and creating\<close>

text \<open>
  C4 fails on the code. Line 248 makes the memcache key of the text of the Project
  object, not of the project's name, so one error can be cached under several keys, and a
  copy that is out of date is taken for the error and put (lines 249 to 251 and 261 to
  273). In \<open>staleCache\<close> the error (P, 1) is stored with count 3, last occurrence 300 and
  the backtrace of the third report, and the copy cached under the first text has count 2
  and last occurrence 150. A report of the same error dated 200, in a request whose
  Project object has the first text, is accepted; the stored error then has last
  occurrence 200 and the backtrace of that report, and its count is still 3.
\<close>

theorem older_report_overwrites_latest:
  "map (\<lambda>(k, e). (k, count e, lastOccurrence e, backtrace e)) (errors staleCache)
     = [((''P'', 1), 3, 300, ''f:3'')] \<and>
   map (\<lambda>(key, k, e). (key, k, count e, lastOccurrence e)) (memcache_error staleCache)
     = [(''<Project object>|NullPointerf'', (''P'', 1), 2, 150),
        (''<Project object 2>|NullPointerf'', (''P'', 1), 3, 300)] \<and>
   fst (putException ext0 obj (sampleReport ''NullPointer'' ''f:4'' ''prod'' 200) staleCache) = None \<and>
   map (\<lambda>(k, e). (k, count e, lastOccurrence e, backtrace e))
     (errors (snd (putException ext0 obj (sampleReport ''NullPointer'' ''f:4'' ''prod'' 200)
        staleCache)))
     = [((''P'', 1), 3, 200, ''f:4'')]"
  by (simp add: staleCache_def model_defs)

text \<open>
  X3. What C4 asks for holds when the error the lookup gives is the error as it is
  stored. Let the report \<open>r\<close> have all its fields, let the lookup of \<open>getAggregatedError\<close>
  (memcache first, then the datastore) give the error \<open>g\<close> under the key \<open>k\<close>, let \<open>g\<close> be
  what the datastore holds under \<open>k\<close>, and let the report's timestamp be earlier than the
  last occurrence of \<open>g\<close>. If \<open>putException\<close> returns, the stored error has the last
  occurrence, backtrace and last message of \<open>g\<close>, a count one higher, the earlier of the
  two times as first occurrence, the report's environment and server added to their lists
  when they were not there, and a new instance of the report is stored under \<open>k\<close>.
\<close>

theorem older_report_keeps_latest:
  assumes r: "x_backtrace r = Some bt" "x_environment r = Some env" "x_message r = Some m"
      "x_project r = Some proj" "x_serverName r = Some srv" "x_timestamp r = Some (JInt t)"
      "x_type r = Some ty"
    and found: "findError ext (memcacheKey projectStr (generateHash ext ty bt))
                  (projectKey s proj) bt (generateHash ext ty bt) s = Some (k, g)"
    and stored: "map_of (errors s) k = Some g"
    and older: "t < lastOccurrence g"
    and ok: "putException ext projectStr r s = (None, s')"
  shows "\<exists>g' inst. map_of (errors s') k = Some g' \<and>
           lastOccurrence g' = lastOccurrence g \<and> backtrace g' = backtrace g \<and>
           lastMessage g' = lastMessage g \<and>
           count g' = count g + 1 \<and>
           firstOccurrence g' = min (firstOccurrence g) t \<and>
           environments g' = (if env \<in> set (environments g) then environments g
                              else environments g @ [env]) \<and>
           servers g' = (if srv \<in> set (servers g) then servers g else servers g @ [srv]) \<and>
           instances s' = instances s @ [inst] \<and> parent_key inst = k \<and> date inst = t \<and>
           environment inst = env \<and> server inst = srv"
proof -
  have pf: "putFields ext projectStr bt env (case m of None \<Rightarrow> [] | Some x \<Rightarrow> x) proj srv t ty
           (x_logMessage r) (x_context r) s = (None, s')"
    using putException_fields_None[OF r ok] .
  have nr: "\<not> projectRaises s proj" using pf by (rule putFields_None_project)
  define s0 where "s0 = (withProject proj s)
              \<lparr>errors := AList.update k (mergeReport env srv bt (case m of None \<Rightarrow> [] | Some x \<Rightarrow> x) t g) (errors s),
               memcache_error := AList.update (memcacheKey projectStr (generateHash ext ty bt))
                  (k, mergeReport env srv bt (case m of None \<Rightarrow> [] | Some x \<Rightarrow> x) t g) (memcache_error s)\<rparr>"
  from pf have pi: "putInstance k env srv (case m of None \<Rightarrow> [] | Some x \<Rightarrow> x) t (x_logMessage r) (x_context r) s0 = (None, s')"
    unfolding putFields_found[OF nr found] s0_def .
  from putInstance_None[OF pi] obtain inst where
    s': "s' = s0\<lparr>instances := instances s0 @ [inst]\<rparr>"
    and i0: "parent_key inst = k" "environment inst = env" "server inst = srv" "date inst = t"
    by blast
  have e: "errors s' = AList.update k (mergeReport env srv bt (case m of None \<Rightarrow> [] | Some x \<Rightarrow> x) t g) (errors s)"
    by (simp add: s' s0_def)
  have i: "instances s' = instances s @ [inst]" "parent_key inst = k" "environment inst = env"
      "server inst = srv" "date inst = t"
    using i0 by (simp_all add: s' s0_def)
  have "map_of (errors s') k = Some (mergeReport env srv bt (case m of None \<Rightarrow> [] | Some x \<Rightarrow> x) t g)"
    by (simp add: e update_conv')
  with i older show ?thesis
    by (simp add: mergeReport_fields mergeReport_latest)
qed

theorem older_report_keeps_latest_witness:
  "findError ext0 (memcacheKey obj (generateHash ext0 ''NullPointer'' ''f:9''))
     (projectKey threeReports ''P'') ''f:9'' (generateHash ext0 ''NullPointer'' ''f:9'')
     threeReports = Some ((''P'', 1), sampleGroup) \<and>
   map_of (errors threeReports) (''P'', 1) = Some sampleGroup \<and>
   120 < lastOccurrence sampleGroup \<and>
   fst (putException ext0 obj (sampleReport ''NullPointer'' ''f:9'' ''qa'' 120) threeReports) = None \<and>
   (\<exists>g' inst.
      map_of (errors (snd (putException ext0 obj (sampleReport ''NullPointer'' ''f:9'' ''qa'' 120)
                 threeReports))) (''P'', 1) = Some g' \<and>
      lastOccurrence g' = 200 \<and> backtrace g' = ''f:2'' \<and> lastMessage g' = ''boom'' \<and>
      count g' = 4 \<and> firstOccurrence g' = 100 \<and>
      environments g' = [''prod'', ''staging'', ''qa''] \<and> servers g' = [''web1''] \<and>
      instances (snd (putException ext0 obj (sampleReport ''NullPointer'' ''f:9'' ''qa'' 120)
                 threeReports)) = instances threeReports @ [inst] \<and>
      parent_key inst = (''P'', 1) \<and> date inst = 120)"
proof -
  let ?r = "sampleReport ''NullPointer'' ''f:9'' ''qa'' 120"
  let ?s' = "snd (putException ext0 obj ?r threeReports)"
  have found: "findError ext0 (memcacheKey obj (generateHash ext0 ''NullPointer'' ''f:9''))
     (projectKey threeReports ''P'') ''f:9'' (generateHash ext0 ''NullPointer'' ''f:9'')
     threeReports = Some ((''P'', 1), sampleGroup)"
    by (simp add: threeReports_eq sampleGroup_def projectKey_def model_defs)
  have stored: "map_of (errors threeReports) (''P'', 1) = Some sampleGroup"
    by (simp add: threeReports_eq sampleGroup_def)
  have older: "120 < lastOccurrence sampleGroup" by (simp add: sampleGroup_def)
  have fst_ok: "fst (putException ext0 obj ?r threeReports) = None"
    by (simp add: threeReports_eq model_defs)
  then have ok: "putException ext0 obj ?r threeReports = (None, ?s')"
    by (simp add: prod_eq_iff)
  have f: "x_backtrace ?r = Some ''f:9''" "x_environment ?r = Some ''qa''"
    "x_message ?r = Some (Some ''boom'')" "x_project ?r = Some ''P''"
    "x_serverName ?r = Some ''web1''" "x_timestamp ?r = Some (JInt 120)"
    "x_type ?r = Some ''NullPointer''"
    by (simp_all add: sampleReport_def)
  have g: "lastOccurrence sampleGroup = 200" "backtrace sampleGroup = ''f:2''"
    "lastMessage sampleGroup = ''boom''" "count sampleGroup = 3" "firstOccurrence sampleGroup = 100"
    "environments sampleGroup = [''prod'', ''staging'']" "servers sampleGroup = [''web1'']"
    by (simp_all add: sampleGroup_def)
  from older_report_keeps_latest[OF f found stored older ok]
  obtain g' inst where "map_of (errors ?s') (''P'', 1) = Some g'"
    "lastOccurrence g' = 200" "backtrace g' = ''f:2''" "lastMessage g' = ''boom''"
    "count g' = 4" "firstOccurrence g' = 100"
    "environments g' = [''prod'', ''staging'', ''qa'']" "servers g' = [''web1'']"
    "instances ?s' = instances threeReports @ [inst]" "parent_key inst = (''P'', 1)"
    "date inst = 120"
    unfolding g by auto
  then have "\<exists>g' inst. map_of (errors ?s') (''P'', 1) = Some g' \<and>
      lastOccurrence g' = 200 \<and> backtrace g' = ''f:2'' \<and> lastMessage g' = ''boom'' \<and>
      count g' = 4 \<and> firstOccurrence g' = 100 \<and>
      environments g' = [''prod'', ''staging'', ''qa''] \<and> servers g' = [''web1''] \<and>
      instances ?s' = instances threeReports @ [inst] \<and>
      parent_key inst = (''P'', 1) \<and> date inst = 120"
    by blast
  with found stored older fst_ok show ?thesis by blast
qed

text \<open>
  C7 fails on the code, by the same key: a report takes what memcache holds under the
  text of its Project object and the hash, whatever project and whatever state that copy
  is of. First, after the three reports of \<open>threeReports\<close> and the resolving of their
  error, project P has no active error; two further reports of that error are accepted
  and neither creates one: they go to the cached copy, and P is left with the resolved
  error, active again, with count 5. Second, in \<open>cachedQ\<close> project P has no error at all
  and memcache holds an error of project Q; two reports of P are accepted, both are
  counted on the error of Q, and P has no error afterwards.
\<close>

theorem same_report_twice_cached_group:
  "activeWithHash ''P'' (generateHash ext0 ''NullPointer'' ''f:4'')
     (snd (ResolvePage_doAuthenticatedGet (''P'', 1) threeReports)) = [] \<and>
   fst (putException ext0 obj (sampleReport ''NullPointer'' ''f:4'' ''prod'' 300)
          (snd (ResolvePage_doAuthenticatedGet (''P'', 1) threeReports))) = None \<and>
   fst (putException ext0 obj (sampleReport ''NullPointer'' ''f:5'' ''prod'' 400)
          (snd (putException ext0 obj (sampleReport ''NullPointer'' ''f:4'' ''prod'' 300)
             (snd (ResolvePage_doAuthenticatedGet (''P'', 1) threeReports))))) = None \<and>
   map (\<lambda>(k, e). (k, count e))
     (activeWithHash ''P'' (generateHash ext0 ''NullPointer'' ''f:4'')
        (putExceptions ext0
           [(obj, sampleReport ''NullPointer'' ''f:4'' ''prod'' 300),
            (obj, sampleReport ''NullPointer'' ''f:5'' ''prod'' 400)]
           (snd (ResolvePage_doAuthenticatedGet (''P'', 1) threeReports))))
     = [((''P'', 1), 5)] \<and>
   filter (\<lambda>(k, e). fst k = ''P'') (errors cachedQ) = [] \<and>
   map (\<lambda>(key, k, e). (key, k, count e)) (memcache_error cachedQ)
     = [(''<Project object>|NullPointerf'', (''Q'', 1), 2)] \<and>
   fst (putException ext0 obj (sampleReport ''NullPointer'' ''f:4'' ''prod'' 300) cachedQ) = None \<and>
   fst (putException ext0 obj (sampleReport ''NullPointer'' ''f:5'' ''prod'' 400)
          (snd (putException ext0 obj (sampleReport ''NullPointer'' ''f:4'' ''prod'' 300) cachedQ)))
     = None \<and>
   map (\<lambda>(k, e). (k, count e))
     (errors (putExceptions ext0
        [(obj, sampleReport ''NullPointer'' ''f:4'' ''prod'' 300),
         (obj, sampleReport ''NullPointer'' ''f:5'' ''prod'' 400)] cachedQ))
     = [((''Q'', 1), 4)]"
  by (simp add: threeReports_eq cachedQ_def activeWithHash_def ResolvePage_doAuthenticatedGet_def
      model_defs)

text \<open>
  X4. What C7 asks for holds when neither report finds an entry in memcache. Two reports
  of one project with the same type and the same normalized backtrace, put one after the
  other into a state in which the project has no active error with their hash and
  memcache has no entry under the key of either request: if both are accepted, the
  project then has exactly one active error with that hash, and its count is 2.
\<close>

theorem same_report_twice_one_group:
  assumes r1: "x_backtrace r1 = Some bt1" "x_environment r1 = Some env1" "x_message r1 = Some m1"
      "x_project r1 = Some proj" "x_serverName r1 = Some srv1" "x_timestamp r1 = Some (JInt t1)"
      "x_type r1 = Some ty"
    and r2: "x_backtrace r2 = Some bt2" "x_environment r2 = Some env2" "x_message r2 = Some m2"
      "x_project r2 = Some proj" "x_serverName r2 = Some srv2" "x_timestamp r2 = Some (JInt t2)"
      "x_type r2 = Some ty"
    and same: "normalizeBacktrace ext bt1 = normalizeBacktrace ext bt2"
    and none: "activeWithHash (projectKey s proj) (generateHash ext ty bt1) s = []"
    and miss1: "map_of (memcache_error s) (memcacheKey projectStr1 (generateHash ext ty bt1)) = None"
    and miss2: "map_of (memcache_error s) (memcacheKey projectStr2 (generateHash ext ty bt1)) = None"
    and ok1: "putException ext projectStr1 r1 s = (None, s1)"
    and ok2: "putException ext projectStr2 r2 s1 = (None, s2)"
  shows "\<exists>k g. activeWithHash (projectKey s proj) (generateHash ext ty bt1) s2 = [(k, g)] \<and>
               count g = 2"
proof -
  define h where "h = generateHash ext ty bt1"
  define pk where "pk = projectKey s proj"
  define msg1 where "msg1 = (case m1 of None \<Rightarrow> [] | Some x \<Rightarrow> x)"
  define msg2 where "msg2 = (case m2 of None \<Rightarrow> [] | Some x \<Rightarrow> x)"
  have h2: "generateHash ext ty bt2 = h" by (simp add: h_def generateHash_def same)
  have pf1: "putFields ext projectStr1 bt1 env1 msg1 proj srv1 t1 ty
           (x_logMessage r1) (x_context r1) s = (None, s1)"
    unfolding msg1_def using putException_fields_None[OF r1 ok1] .
  have nr: "\<not> projectRaises s proj" using pf1 by (rule putFields_None_project)
  have fe1: "findError ext (memcacheKey projectStr1 (generateHash ext ty bt1)) (projectKey s proj)
               bt1 (generateHash ext ty bt1) s = None"
    using miss1 none by (simp add: findError_miss)
  define k1 where "k1 = (pk, alloc_id (errors s))"
  define e1 where "e1 = newError env1 srv1 bt1 ty h msg1 t1"
  define sa where "sa = (withProject proj s)\<lparr>errors := errors s @ [(k1, e1)]\<rparr>"
  have "putFields ext projectStr1 bt1 env1 msg1 proj srv1 t1 ty (x_logMessage r1) (x_context r1) s =
        (if isl (py_str env1) then (Some UnicodeEncodeError, withProject proj s)
         else putInstance k1 env1 srv1 msg1 t1 (x_logMessage r1) (x_context r1) sa)"
    unfolding k1_def e1_def sa_def pk_def h_def
    by (rule putFields_created[OF nr fe1])
  with pf1 have pi1: "putInstance k1 env1 srv1 msg1 t1 (x_logMessage r1) (x_context r1) sa = (None, s1)"
    by (simp split: if_splits)
  from putInstance_None[OF pi1] obtain inst1 where s1': "s1 = sa\<lparr>instances := instances sa @ [inst1]\<rparr>"
    by blast
  have s1: "memcache_error s1 = memcache_error s" "memcache_project s1 = memcache_project s"
    by (simp_all add: s1' sa_def)
  have fresh: "k1 \<notin> fst ` set (errors s)" unfolding k1_def by (rule alloc_id_fresh)
  have es1: "errors s1 = errors s @ [(k1, e1)]" by (simp add: s1' sa_def)
  have pk1: "projectKey s1 proj = pk"
    using projectKey_cong[of s1 s proj] s1 by (simp add: pk_def)
  have a1: "activeWithHash pk h s1 = [(k1, e1)]"
    using activeWithHash_append[OF es1, of pk h] none
    by (simp add: h_def[symmetric] pk_def[symmetric] k1_def e1_def newError_fields)
  have pf2: "putFields ext projectStr2 bt2 env2 msg2 proj srv2 t2 ty
           (x_logMessage r2) (x_context r2) s1 = (None, s2)"
    unfolding msg2_def using putException_fields_None[OF r2 ok2] .
  have nr1: "\<not> projectRaises s1 proj" using pf2 by (rule putFields_None_project)
  have fe2: "findError ext (memcacheKey projectStr2 (generateHash ext ty bt2)) (projectKey s1 proj)
               bt2 (generateHash ext ty bt2) s1 = Some (k1, e1)"
    using miss2 a1 same
    by (simp add: findError_miss s1 h2 pk1 h_def[symmetric] e1_def newError_fields)
  define e2 where "e2 = mergeReport env2 srv2 bt2 msg2 t2 e1"
  define sb where "sb = (withProject proj s1)
              \<lparr>errors := AList.update k1 e2 (errors s1),
               memcache_error := AList.update (memcacheKey projectStr2 h) (k1, e2) (memcache_error s1)\<rparr>"
  have "putFields ext projectStr2 bt2 env2 msg2 proj srv2 t2 ty (x_logMessage r2) (x_context r2) s1 =
        putInstance k1 env2 srv2 msg2 t2 (x_logMessage r2) (x_context r2) sb"
    unfolding e2_def sb_def h2[symmetric] by (rule putFields_found[OF nr1 fe2])
  with pf2 have pi2: "putInstance k1 env2 srv2 msg2 t2 (x_logMessage r2) (x_context r2) sb = (None, s2)"
    by simp
  from putInstance_None[OF pi2] obtain inst2 where s2': "s2 = sb\<lparr>instances := instances sb @ [inst2]\<rparr>"
    by blast
  have "errors s2 = AList.update k1 e2 (errors s1)"
    by (simp add: s2' sb_def)
  then have es2: "errors s2 = errors s @ [(k1, e2)]"
    using fresh by (simp add: es1 update_last)
  have "activeWithHash pk h s2 = [(k1, e2)]"
    using activeWithHash_append[OF es2, of pk h] none
    by (simp add: h_def[symmetric] pk_def[symmetric] k1_def e2_def e1_def mergeReport_fields newError_fields)
  moreover have "count e2 = 2"
    by (simp add: e2_def e1_def mergeReport_fields newError_fields)
  ultimately show ?thesis
    by (auto simp: h_def pk_def)
qed

theorem same_report_twice_one_group_witness:
  "normalizeBacktrace ext0 ''f:1'' = normalizeBacktrace ext0 ''f:2'' \<and>
   activeWithHash (projectKey init ''P'') (generateHash ext0 ''NullPointer'' ''f:1'') init = [] \<and>
   fst (putException ext0 obj (sampleReport ''NullPointer'' ''f:1'' ''prod'' 100) init) = None \<and>
   fst (putException ext0 obj (sampleReport ''NullPointer'' ''f:2'' ''prod'' 200)
          (snd (putException ext0 obj (sampleReport ''NullPointer'' ''f:1'' ''prod'' 100) init))) = None \<and>
   (\<exists>k g. activeWithHash (projectKey init ''P'') (generateHash ext0 ''NullPointer'' ''f:1'')
             (snd (putException ext0 obj (sampleReport ''NullPointer'' ''f:2'' ''prod'' 200)
                (snd (putException ext0 obj (sampleReport ''NullPointer'' ''f:1'' ''prod'' 100) init))))
           = [(k, g)] \<and> count g = 2)"
proof -
  let ?r1 = "sampleReport ''NullPointer'' ''f:1'' ''prod'' 100"
  let ?r2 = "sampleReport ''NullPointer'' ''f:2'' ''prod'' 200"
  let ?s1 = "snd (putException ext0 obj ?r1 init)"
  let ?s2 = "snd (putException ext0 obj ?r2 ?s1)"
  have same: "normalizeBacktrace ext0 ''f:1'' = normalizeBacktrace ext0 ''f:2''"
    by (simp add: ext0_def)
  have none: "activeWithHash (projectKey init ''P'') (generateHash ext0 ''NullPointer'' ''f:1'') init = []"
    by (simp add: activeWithHash_def init_def)
  have miss: "map_of (memcache_error init) (memcacheKey obj (generateHash ext0 ''NullPointer'' ''f:1'')) = None"
    by (simp add: init_def)
  have fst1: "fst (putException ext0 obj ?r1 init) = None" by (simp add: model_defs)
  have fst2: "fst (putException ext0 obj ?r2 ?s1) = None" by (simp add: model_defs)
  have ok1: "putException ext0 obj ?r1 init = (None, ?s1)" using fst1 by (simp add: prod_eq_iff)
  have ok2: "putException ext0 obj ?r2 ?s1 = (None, ?s2)" using fst2 by (simp add: prod_eq_iff)
  have f1: "x_backtrace ?r1 = Some ''f:1''" "x_environment ?r1 = Some ''prod''"
    "x_message ?r1 = Some (Some ''boom'')" "x_project ?r1 = Some ''P''"
    "x_serverName ?r1 = Some ''web1''" "x_timestamp ?r1 = Some (JInt 100)"
    "x_type ?r1 = Some ''NullPointer''"
    by (simp_all add: sampleReport_def)
  have f2: "x_backtrace ?r2 = Some ''f:2''" "x_environment ?r2 = Some ''prod''"
    "x_message ?r2 = Some (Some ''boom'')" "x_project ?r2 = Some ''P''"
    "x_serverName ?r2 = Some ''web1''" "x_timestamp ?r2 = Some (JInt 200)"
    "x_type ?r2 = Some ''NullPointer''"
    by (simp_all add: sampleReport_def)
  from same_report_twice_one_group[OF f1 f2 same none miss miss ok1 ok2]
  show ?thesis using same none fst1 fst2 by simp
qed

text \<open>
  C2 (amended). Two reports of one project whose normalized backtraces differ, put one
  after the other into a datastore with unique keys. If each of them finds no entry in
  memcache under its key and is accepted, they go to two different errors, and both
  errors are active afterwards. Nothing is assumed of the two hashes: they may be equal.
\<close>

theorem cache_miss_distinct_groups:
  assumes keys: "distinct (map fst (errors s))"
    and r1: "x_backtrace r1 = Some bt1" "x_environment r1 = Some env1" "x_message r1 = Some m1"
      "x_project r1 = Some proj" "x_serverName r1 = Some srv1" "x_timestamp r1 = Some (JInt t1)"
      "x_type r1 = Some ty1"
    and r2: "x_backtrace r2 = Some bt2" "x_environment r2 = Some env2" "x_message r2 = Some m2"
      "x_project r2 = Some proj" "x_serverName r2 = Some srv2" "x_timestamp r2 = Some (JInt t2)"
      "x_type r2 = Some ty2"
    and differ: "normalizeBacktrace ext bt1 \<noteq> normalizeBacktrace ext bt2"
    and miss1: "map_of (memcache_error s) (memcacheKey projectStr1 (generateHash ext ty1 bt1)) = None"
    and ok1: "putException ext projectStr1 r1 s = (None, s1)"
    and miss2: "map_of (memcache_error s1) (memcacheKey projectStr2 (generateHash ext ty2 bt2)) = None"
    and ok2: "putException ext projectStr2 r2 s1 = (None, s2)"
  shows "\<exists>k1 k2 g1 g2 i1 i2. k1 \<noteq> k2 \<and>
           instances s1 = instances s @ [i1] \<and> parent_key i1 = k1 \<and>
           instances s2 = instances s1 @ [i2] \<and> parent_key i2 = k2 \<and>
           map_of (errors s2) k1 = Some g1 \<and> active g1 \<and>
           map_of (errors s2) k2 = Some g2 \<and> active g2"
proof -
  have pf1: "putFields ext projectStr1 bt1 env1 (case m1 of None \<Rightarrow> [] | Some x \<Rightarrow> x)
      proj srv1 t1 ty1 (x_logMessage r1) (x_context r1) s = (None, s1)"
    using putException_fields_None[OF r1 ok1] .
  have pf2: "putFields ext projectStr2 bt2 env2 (case m2 of None \<Rightarrow> [] | Some x \<Rightarrow> x)
      proj srv2 t2 ty2 (x_logMessage r2) (x_context r2) s1 = (None, s2)"
    using putException_fields_None[OF r2 ok2] .
  from putFields_miss_None[OF miss1 pf1] obtain k1 e1 i1 where
    a: "errors s1 = AList.update k1 e1 (errors s)" "instances s1 = instances s @ [i1]"
       "parent_key i1 = k1" "active e1"
       "normalizeBacktrace ext (backtrace e1) = normalizeBacktrace ext bt1"
    by blast
  from putFields_miss_None[OF miss2 pf2] obtain k2 e2 i2 where
    b: "errors s2 = AList.update k2 e2 (errors s1)" "instances s2 = instances s1 @ [i2]"
       "parent_key i2 = k2" "active e2"
       "k2 \<in> fst ` set (errors s1) \<longrightarrow>
              (\<exists>g. (k2, g) \<in> set (errors s1) \<and>
                   normalizeBacktrace ext (backtrace g) = normalizeBacktrace ext bt2)"
    by blast
  have d1: "distinct (map fst (errors s1))" using keys by (simp add: a distinct_update)
  have m1: "map_of (errors s1) k1 = Some e1" by (simp add: a update_conv')
  have ne: "k1 \<noteq> k2"
  proof
    assume eq: "k1 = k2"
    have "k2 \<in> fst ` set (errors s1)" using m1 eq by (metis domI dom_map_of_conv_image_fst)
    with b obtain g where g: "(k2, g) \<in> set (errors s1)"
      "normalizeBacktrace ext (backtrace g) = normalizeBacktrace ext bt2" by blast
    from map_of_distinct_in[OF d1 g(1)] m1 eq have "g = e1" by simp
    with g a differ show False by simp
  qed
  have "map_of (errors s2) k1 = Some e1" using ne m1 by (simp add: b update_conv')
  moreover have "map_of (errors s2) k2 = Some e2" by (simp add: b update_conv')
  ultimately show ?thesis using a b ne by blast
qed

theorem cache_miss_distinct_groups_witness:
  "generateHash ext0 ''AB'' ''C'' = generateHash ext0 ''A'' ''BC'' \<and>
   normalizeBacktrace ext0 ''C'' \<noteq> normalizeBacktrace ext0 ''BC'' \<and>
   fst (putException ext0 obj reportAB init) = None \<and>
   fst (putException ext0 obj reportA (snd (putException ext0 obj reportAB init))) = None \<and>
   map parent_key
     (instances (snd (putException ext0 obj reportA (snd (putException ext0 obj reportAB init)))))
     = [(''P'', 1), (''P'', 2)] \<and>
   (\<exists>k1 k2 g1 g2 i1 i2. k1 \<noteq> k2 \<and>
      instances (snd (putException ext0 obj reportAB init)) = instances init @ [i1] \<and>
      parent_key i1 = k1 \<and>
      instances (snd (putException ext0 obj reportA (snd (putException ext0 obj reportAB init))))
        = instances (snd (putException ext0 obj reportAB init)) @ [i2] \<and>
      parent_key i2 = k2 \<and>
      map_of (errors (snd (putException ext0 obj reportA (snd (putException ext0 obj reportAB init)))))
        k1 = Some g1 \<and> active g1 \<and>
      map_of (errors (snd (putException ext0 obj reportA (snd (putException ext0 obj reportAB init)))))
        k2 = Some g2 \<and> active g2)"
proof -
  let ?s1 = "snd (putException ext0 obj reportAB init)"
  let ?s2 = "snd (putException ext0 obj reportA ?s1)"
  have h: "generateHash ext0 ''AB'' ''C'' = generateHash ext0 ''A'' ''BC''"
    by (simp add: generateHash_def ext0_def)
  have differ: "normalizeBacktrace ext0 ''C'' \<noteq> normalizeBacktrace ext0 ''BC''"
    by (simp add: ext0_def)
  have keys: "distinct (map fst (errors init))" by (simp add: init_def)
  have miss1: "map_of (memcache_error init) (memcacheKey obj (generateHash ext0 ''AB'' ''C'')) = None"
    by (simp add: init_def)
  have miss2: "map_of (memcache_error ?s1) (memcacheKey obj (generateHash ext0 ''A'' ''BC'')) = None"
    by (simp add: model_defs reportAB_def)
  have fst1: "fst (putException ext0 obj reportAB init) = None"
    by (simp add: model_defs reportAB_def)
  have fst2: "fst (putException ext0 obj reportA ?s1) = None"
    by (simp add: model_defs reportAB_def reportA_def)
  have ps: "map parent_key (instances ?s2) = [(''P'', 1), (''P'', 2)]"
    by (simp add: model_defs reportAB_def reportA_def)
  have ok1: "putException ext0 obj reportAB init = (None, ?s1)" using fst1 by (simp add: prod_eq_iff)
  have ok2: "putException ext0 obj reportA ?s1 = (None, ?s2)" using fst2 by (simp add: prod_eq_iff)
  have f1: "x_backtrace reportAB = Some ''C''" "x_environment reportAB = Some ''prod''"
    "x_message reportAB = Some (Some ''boom'')" "x_project reportAB = Some ''P''"
    "x_serverName reportAB = Some ''web1''" "x_timestamp reportAB = Some (JInt 100)"
    "x_type reportAB = Some ''AB''"
    by (simp_all add: reportAB_def sampleReport_def)
  have f2: "x_backtrace reportA = Some ''BC''" "x_environment reportA = Some ''prod''"
    "x_message reportA = Some (Some ''boom'')" "x_project reportA = Some ''P''"
    "x_serverName reportA = Some ''web1''" "x_timestamp reportA = Some (JInt 200)"
    "x_type reportA = Some ''A''"
    by (simp_all add: reportA_def sampleReport_def)
  from cache_miss_distinct_groups[OF keys f1 f2 differ miss1 ok1 miss2 ok2]
  show ?thesis using h differ fst1 fst2 ps by simp
qed

text \<open>
  C2 as stated fails when memcache holds an entry for the shared hash: in \<open>cachedAB\<close> the
  error of the first report is cached, and \<open>getAggregatedError\<close> takes a cached error
  without comparing backtraces. Both reports go to that one error, the second as well,
  although its normalized backtrace differs.
\<close>

theorem cached_collision_merged:
  "normalizeBacktrace ext0 ''C'' \<noteq> normalizeBacktrace ext0 ''BC'' \<and>
   map_of (memcache_error cachedAB) (memcacheKey obj (generateHash ext0 ''A'' ''BC'')) \<noteq> None \<and>
   map fst (errors (putExceptions ext0 [(obj, reportAB), (obj, reportA)] cachedAB)) = [(''P'', 1)] \<and>
   map parent_key (instances (putExceptions ext0 [(obj, reportAB), (obj, reportA)] cachedAB))
     = [(''P'', 1), (''P'', 1), (''P'', 1), (''P'', 1)]"
  by (simp add: model_defs reportAB_def reportA_def cachedAB_def)

section \<open>Resolving\<close>

text \<open>
  C1 fails on the code. The three reports of \<open>threeReports\<close> leave their error in
  memcache under the key made of the Project object's text. \<open>ResolvePage\<close> makes the error
  inactive and deletes the key made of the project's name, which is another key, so the
  entry stays. A further report in a request where the Project object has the same text
  takes the cached copy, which is active, and puts it: the resolved error is active
  again with one more occurrence, and no new error exists.
\<close>

theorem resolve_then_report_revives_group:
  "map (\<lambda>(k, e). (k, active e, count e))
     (errors (snd (ResolvePage_doAuthenticatedGet (''P'', 1) threeReports)))
     = [((''P'', 1), False, 3)] \<and>
   map_of (memcache_error (snd (ResolvePage_doAuthenticatedGet (''P'', 1) threeReports)))
     (memcacheKey obj (generateHash ext0 ''NullPointer'' ''f:4'')) \<noteq> None \<and>
   map (\<lambda>(k, e). (k, active e, count e))
     (errors (snd (putException ext0 obj (sampleReport ''NullPointer'' ''f:4'' ''prod'' 300)
        (snd (ResolvePage_doAuthenticatedGet (''P'', 1) threeReports)))))
     = [((''P'', 1), True, 4)]"
  by (simp add: threeReports_eq ResolvePage_doAuthenticatedGet_def model_defs)

text \<open>
  X1. What C1 asks for holds when the eviction reaches the entry: the text of the Project
  object is the project's name, so the key \<open>ResolvePage\<close> deletes is the key the next
  report looks up. Let \<open>g\<close> be stored under \<open>k\<close> in a datastore with unique keys, let the
  report be of the project and the hash of \<open>g\<close>, and let no other active error of the
  project with that hash have the report's normalized backtrace. After \<open>k\<close> is resolved,
  an accepted report creates an active error under a key that was not in use, with count
  1, and puts its instance there; \<open>g\<close> is stored as it was, but for being inactive.
\<close>

theorem resolve_evicted_new_group:
  assumes keys: "distinct (map fst (errors s))"
    and g: "map_of (errors s) k = Some g"
    and r: "x_backtrace r = Some bt" "x_environment r = Some env" "x_message r = Some m"
      "x_project r = Some proj" "x_serverName r = Some srv" "x_timestamp r = Some (JInt t)"
      "x_type r = Some ty"
    and proj: "projectKey s proj = fst k"
    and fp: "generateHash ext ty bt = hash g"
    and str: "projectStr = fst k"
    and others: "list_all (\<lambda>(k', e). k' = k \<or>
                    normalizeBacktrace ext (backtrace e) \<noteq> normalizeBacktrace ext bt)
                  (activeWithHash (fst k) (hash g) s)"
    and ok: "putException ext projectStr r (snd (ResolvePage_doAuthenticatedGet k s)) = (None, s')"
  shows "\<exists>k' e' inst. k' \<noteq> k \<and> map_of (errors s) k' = None \<and>
           map_of (errors s') k' = Some e' \<and> active e' \<and> count e' = 1 \<and>
           map_of (errors s') k = Some (g\<lparr>active := False\<rparr>) \<and>
           instances s' = instances s @ [inst] \<and> parent_key inst = k'"
proof -
  define h where "h = hash g"
  define s3 where "s3 = s\<lparr>errors := AList.update k (g\<lparr>active := False\<rparr>) (errors s),
              memcache_error := AList.delete (memcacheKey (fst k) h) (memcache_error s)\<rparr>"
  define msg where "msg = (case m of None \<Rightarrow> [] | Some x \<Rightarrow> x)"
  have rs: "snd (ResolvePage_doAuthenticatedGet k s) = s3"
    by (simp add: ResolvePage_found[OF g] s3_def h_def)
  have pk: "projectKey s3 proj = fst k"
    using projectKey_cong[of s3 s proj] proj by (simp add: s3_def)
  have miss: "map_of (memcache_error s3) (memcacheKey (fst k) h) = None"
    by (simp add: s3_def delete_conv')
  have nomatch: "find (\<lambda>(k', possibility).
            normalizeBacktrace ext (backtrace possibility) = normalizeBacktrace ext bt)
          (sort_key fst (activeWithHash (fst k) h s3)) = None"
  proof -
    have "\<And>k' e. (k', e) \<in> set (activeWithHash (fst k) h s3) \<Longrightarrow>
            normalizeBacktrace ext (backtrace e) \<noteq> normalizeBacktrace ext bt"
    proof -
      fix k' e assume a: "(k', e) \<in> set (activeWithHash (fst k) h s3)"
      then have in3: "(k', e) \<in> set (AList.update k (g\<lparr>active := False\<rparr>) (errors s))"
        and act: "active e" "fst k' = fst k" "hash e = h"
        by (auto simp: activeWithHash_def s3_def)
      from set_update_cases[OF keys in3] act(1)
      have "(k', e) \<in> set (errors s) \<and> k' \<noteq> k" by auto
      with act have "(k', e) \<in> set (activeWithHash (fst k) h s)" "k' \<noteq> k"
        by (auto simp: activeWithHash_def)
      with others show "normalizeBacktrace ext (backtrace e) \<noteq> normalizeBacktrace ext bt"
        by (auto simp: list_all_iff h_def)
    qed
    then show ?thesis by (auto simp: find_None_iff)
  qed
  have fe: "findError ext (memcacheKey projectStr (generateHash ext ty bt)) (projectKey s3 proj) bt
             (generateHash ext ty bt) s3 = None"
    using miss nomatch by (simp add: findError_miss fp str pk h_def)
  define k' where "k' = (projectKey s3 proj, alloc_id (errors s3))"
  define e' where "e' = newError env srv bt ty (generateHash ext ty bt) msg t"
  define sa where "sa = (withProject proj s3)\<lparr>errors := errors s3 @ [(k', e')]\<rparr>"
  have pf: "putFields ext projectStr bt env msg proj srv t ty (x_logMessage r) (x_context r) s3
      = (None, s')"
    unfolding msg_def using putException_fields_None[OF r ok[unfolded rs]] .
  have nr: "\<not> projectRaises s3 proj" using pf by (rule putFields_None_project)
  have "putFields ext projectStr bt env msg proj srv t ty (x_logMessage r) (x_context r) s3 =
        (if isl (py_str env) then (Some UnicodeEncodeError, withProject proj s3)
         else putInstance k' env srv msg t (x_logMessage r) (x_context r) sa)"
    unfolding k'_def e'_def sa_def by (rule putFields_created[OF nr fe])
  with pf have pi: "putInstance k' env srv msg t (x_logMessage r) (x_context r) sa = (None, s')"
    by (simp split: if_splits)
  from putInstance_None[OF pi] obtain inst where s': "s' = sa\<lparr>instances := instances sa @ [inst]\<rparr>"
    and ik: "parent_key inst = k'"
    by blast
  have fresh3: "k' \<notin> fst ` set (errors s3)" unfolding k'_def by (rule alloc_id_fresh)
  have m3: "map_of (errors s3) = (map_of (errors s))(k \<mapsto> g\<lparr>active := False\<rparr>)"
    by (simp add: s3_def update_conv')
  have n3: "map_of (errors s3) k' = None"
    using fresh3 by (simp add: map_of_eq_None_iff)
  have ne: "k' \<noteq> k" using n3 m3 by auto
  have n: "map_of (errors s) k' = None" using n3 m3 ne by (simp split: if_splits)
  have es': "errors s' = errors s3 @ [(k', e')]" by (simp add: s' sa_def)
  have a: "map_of (errors s') k' = Some e'" using n3 by (simp add: es' map_add_Some_iff)
  have b: "map_of (errors s') k = Some (g\<lparr>active := False\<rparr>)"
    using m3 by (simp add: es' map_add_Some_iff)
  have c: "instances s' = instances s @ [inst]"
    by (simp add: s' sa_def s3_def)
  have d: "active e'" "count e' = 1" by (simp_all add: e'_def newError_fields)
  show ?thesis using ne n a b c d ik by blast
qed

theorem resolve_evicted_new_group_witness:
  "map (\<lambda>(k, e). (k, active e, count e))
     (errors (snd (putException ext0 ''P'' (sampleReport ''NullPointer'' ''f:4'' ''prod'' 300)
        (snd (ResolvePage_doAuthenticatedGet (''P'', 1) namedTwice)))))
     = [((''P'', 1), False, 2), ((''P'', 2), True, 1)] \<and>
   (\<exists>k' e' inst. k' \<noteq> (''P'', 1) \<and> map_of (errors namedTwice) k' = None \<and>
      map_of (errors (snd (putException ext0 ''P'' (sampleReport ''NullPointer'' ''f:4'' ''prod'' 300)
        (snd (ResolvePage_doAuthenticatedGet (''P'', 1) namedTwice))))) k' = Some e' \<and>
      active e' \<and> count e' = 1 \<and>
      map_of (errors (snd (putException ext0 ''P'' (sampleReport ''NullPointer'' ''f:4'' ''prod'' 300)
        (snd (ResolvePage_doAuthenticatedGet (''P'', 1) namedTwice))))) (''P'', 1)
        = Some (sampleGroup\<lparr>count := 2, environments := [''prod''], active := False\<rparr>) \<and>
      instances (snd (putException ext0 ''P'' (sampleReport ''NullPointer'' ''f:4'' ''prod'' 300)
        (snd (ResolvePage_doAuthenticatedGet (''P'', 1) namedTwice))))
        = instances namedTwice @ [inst] \<and>
      parent_key inst = k')"
proof -
  let ?r = "sampleReport ''NullPointer'' ''f:4'' ''prod'' 300"
  let ?g = "sampleGroup\<lparr>count := 2, environments := [''prod'']\<rparr>"
  define s3 where "s3 = snd (ResolvePage_doAuthenticatedGet (''P'', 1) namedTwice)"
  define s' where "s' = snd (putException ext0 ''P'' ?r s3)"
  have keys: "distinct (map fst (errors namedTwice))" by (simp add: namedTwice_eq)
  have g: "map_of (errors namedTwice) (''P'', 1) = Some ?g" by (simp add: namedTwice_eq)
  have f: "x_backtrace ?r = Some ''f:4''" "x_environment ?r = Some ''prod''"
    "x_message ?r = Some (Some ''boom'')" "x_project ?r = Some ''P''"
    "x_serverName ?r = Some ''web1''" "x_timestamp ?r = Some (JInt 300)"
    "x_type ?r = Some ''NullPointer''"
    by (simp_all add: sampleReport_def)
  have proj: "projectKey namedTwice ''P'' = fst (''P'', 1 :: nat)"
    by (simp add: namedTwice_eq projectKey_def)
  have fp: "generateHash ext0 ''NullPointer'' ''f:4'' = hash ?g"
    by (simp add: generateHash_def ext0_def sampleGroup_def)
  have str: "''P'' = fst (''P'', 1 :: nat)" by simp
  have others: "list_all (\<lambda>(k', e). k' = (''P'', 1) \<or>
                    normalizeBacktrace ext0 (backtrace e) \<noteq> normalizeBacktrace ext0 ''f:4'')
                  (activeWithHash (fst (''P'', 1 :: nat)) (hash ?g) namedTwice)"
    by (simp add: namedTwice_eq activeWithHash_def sampleGroup_def)
  have v: "map (\<lambda>(k, e). (k, active e, count e)) (errors s')
     = [((''P'', 1), False, 2), ((''P'', 2), True, 1)]"
    by (simp add: s'_def s3_def namedTwice_eq sampleGroup_def ResolvePage_doAuthenticatedGet_def model_defs)
  have "fst (putException ext0 ''P'' ?r s3) = None"
    by (simp add: s3_def namedTwice_eq sampleGroup_def ResolvePage_doAuthenticatedGet_def model_defs)
  then have ok: "putException ext0 ''P'' ?r (snd (ResolvePage_doAuthenticatedGet (''P'', 1) namedTwice))
                 = (None, s')"
    by (simp add: prod_eq_iff s'_def s3_def)
  from resolve_evicted_new_group[OF keys g f proj fp str others ok]
  have "\<exists>k' e' inst. k' \<noteq> (''P'', 1) \<and> map_of (errors namedTwice) k' = None \<and>
      map_of (errors s') k' = Some e' \<and> active e' \<and> count e' = 1 \<and>
      map_of (errors s') (''P'', 1) = Some (?g\<lparr>active := False\<rparr>) \<and>
      instances s' = instances namedTwice @ [inst] \<and> parent_key inst = k'" .
  with v show ?thesis unfolding s'_def s3_def by blast
qed

text \<open>
  X2. The examples of the specification. Three reports of one error in project P, from
  prod, prod and staging, at 100, 200 and 150, leave one error with count 3, first
  occurrence 100, last occurrence 200 and the environments prod and staging; listing with
  the filter environment = staging returns it with count 1 and the environment staging.
\<close>

theorem three_reports_example:
  "map (\<lambda>(k, e). (k, count e, firstOccurrence e, lastOccurrence e, environments e))
     (errors threeReports) = [((''P'', 1), 3, 100, 200, [''prod'', ''staging''])] \<and>
   map (\<lambda>(k, e). (k, count e, environments e))
     (case fst (getErrors stagingOnly 51 0 threeReports) of Inl e \<Rightarrow> [] | Inr views \<Rightarrow> views)
     = [((''P'', 1), 1, [''staging''])]"
  by (simp add: threeReports_eq sample_defs newInstance_def)

section \<open>Listing with instance filters\<close>

text \<open>
  C6. \<open>getErrors\<close> with at least one of the filters environment, server and affectedUser.
  When it returns, its result is a list of views such that: each view belongs to an
  active error (of the project, if one is given) that has at least one instance matching
  the filters; its count is the number of those instances, its last occurrence their
  latest date, its environments and servers exactly theirs, each once; and the keys of the
  views are \<open>limit\<close> keys after the first \<open>offset\<close> of the active errors that have such an
  instance, in descending order of the errors' own last occurrence, errors that are equal
  there in the order of their keys. It raises in two cases only: BadValueError when the
  project filter is the empty name, which the datastore refuses, and ValueError when the
  affectedUser filter is not a number and \<open>offset\<close> and \<open>limit\<close> are not both zero.
\<close>

theorem filtered_list_views:
  assumes filt: "hasInstanceFilters fs"
  shows "case fst (getErrors fs limit offset s) of
           Inr views \<Rightarrow>
             (\<forall>(k, v) \<in> set views. \<exists>e. (k, e) \<in> set (activeErrors fs s) \<and> viewOf fs s k e v) \<and>
             map fst views =
               take limit (drop offset (map fst
                 (filter (\<lambda>(k, e). matchingInstances fs k s \<noteq> [])
                    (sort_key (\<lambda>(k, e). (- lastOccurrence e, k)) (activeErrors fs s)))))
         | Inl e \<Rightarrow>
             (e = BadValueError \<and> f_project fs = Some [] \<and> projectRaises s []) \<or>
             (e = ValueError \<and> 0 < offset + limit \<and>
              (\<exists>text. f_affectedUser fs = Some text \<and> int_of_str text = Inl ValueError))"
proof (cases "case f_project fs of None \<Rightarrow> True | Some name \<Rightarrow> \<not> projectRaises s name")
  case False
  then obtain name where n: "f_project fs = Some name" "projectRaises s name"
    by (auto split: option.splits)
  then have "name = []" by (simp add: projectRaises_def)
  with n show ?thesis by (simp add: getErrors_raises)
next
  case proj: True
  define errs where "errs = sort_key (\<lambda>(k, e). (- lastOccurrence e, k)) (activeErrors fs s)"
  show ?thesis
  proof (cases "f_affectedUser fs = None \<or>
                (\<exists>text n. f_affectedUser fs = Some text \<and> int_of_str text = Inr n)")
    case False
    then obtain u where t: "f_affectedUser fs = Some u" "isl (int_of_str u)"
      by (cases "f_affectedUser fs"; cases "int_of_str (the (f_affectedUser fs))") auto
    then have iv: "int_of_str u = Inl ValueError"
      using int_of_str_Inl[of u] by (cases "int_of_str u") auto
    have ge: "fst (getErrors fs limit offset s) =
              (if offset + limit = 0 then Inr [] else Inl ValueError)"
      by (simp add: getErrors_eq[OF proj filt] filterErrors_unparsed[OF t])
    show ?thesis
    proof (cases "offset + limit = 0")
      case True
      with ge have ge0: "fst (getErrors fs limit offset s) = Inr []" and l0: "limit = 0"
        by simp_all
      show ?thesis unfolding ge0 using l0 by simp
    next
      case False
      with t(1) iv show ?thesis by (simp add: ge)
    qed
  next
    case parse: True
    define full where "full = concat (map (\<lambda>(k, error).
                 if matchingInstances fs k s \<noteq> []
                 then [(k, errorDict error
                          (sort_key (\<lambda>i. (- date i, parent_key i)) (matchingInstances fs k s)))]
                 else []) errs)"
    define views where "views = (if offset + limit = 0 then [] else take limit (drop offset full))"
    have v: "fst (getErrors fs limit offset s) = Inr views"
      by (simp add: getErrors_eq[OF proj filt] filterErrors_parsed[OF parse] full_def errs_def
          views_def)
    have sub: "set views \<subseteq> set full"
      by (auto simp: views_def dest: in_set_takeD in_set_dropD)
    have p1: "\<forall>(k, v) \<in> set views. \<exists>e. (k, e) \<in> set (activeErrors fs s) \<and> viewOf fs s k e v"
    proof (clarify)
      fix k v assume "(k, v) \<in> set views"
      with sub have "(k, v) \<in> set full" by blast
      from concat_views_mem[OF this[unfolded full_def]] obtain e where
        e: "(k, e) \<in> set errs" "matchingInstances fs k s \<noteq> []"
           "v = errorDict e (sort_key (\<lambda>i. (- date i, parent_key i)) (matchingInstances fs k s))"
        by blast
      have "(k, e) \<in> set (activeErrors fs s)" using e(1) by (simp add: errs_def)
      moreover have "viewOf fs s k e v"
        unfolding viewOf_def e(3) by (simp add: errorDict_fields[OF e(2)] e(2))
      ultimately show "\<exists>e. (k, e) \<in> set (activeErrors fs s) \<and> viewOf fs s k e v" by blast
    qed
    have "map fst full = map fst (filter (\<lambda>(k, e). matchingInstances fs k s \<noteq> []) errs)"
      unfolding full_def by (rule concat_views_keys)
    then have "map fst (take limit (drop offset full)) = take limit (drop offset (map fst
                 (filter (\<lambda>(k, e). matchingInstances fs k s \<noteq> []) errs)))"
      by (simp only: take_map[symmetric] drop_map[symmetric])
    then have p2: "map fst views = take limit (drop offset (map fst
                 (filter (\<lambda>(k, e). matchingInstances fs k s \<noteq> []) errs)))"
      by (cases "offset + limit = 0") (simp_all add: views_def)
    show ?thesis using p1 p2 by (simp add: v errs_def)
  qed
qed

theorem filtered_list_views_witness:
  "hasInstanceFilters stagingWeb2User7 \<and>
   map (\<lambda>(k, e). (k, lastOccurrence e)) (errors listed)
     = [((''B'', 1), 200), ((''A'', 2), 200), ((''C'', 3), 300)] \<and>
   map (\<lambda>i. (parent_key i, environment i, server i, affectedUser i, date i)) (instances listed)
     = [((''B'', 1), ''staging'', ''web2'', Some 7, 100),
        ((''B'', 1), ''prod'', ''web2'', Some 7, 200),
        ((''A'', 2), ''staging'', ''web2'', Some 7, 150),
        ((''A'', 2), ''staging'', ''web1'', Some 7, 200),
        ((''A'', 2), ''staging'', ''web2'', Some 8, 120),
        ((''C'', 3), ''prod'', ''web1'', Some 7, 300),
        ((''A'', 2), ''staging'', ''web2'', Some 7, 180)] \<and>
   (\<exists>views. fst (getErrors stagingWeb2User7 51 0 listed) = Inr views \<and>
      map (\<lambda>(k, v). (k, count v, lastOccurrence v, environments v, servers v)) views
        = [((''A'', 2), 2, 180, [''staging''], [''web2'']),
           ((''B'', 1), 1, 100, [''staging''], [''web2''])] \<and>
      list_all (\<lambda>(k, v). \<exists>e. (k, e) \<in> set (activeErrors stagingWeb2User7 listed) \<and>
                               viewOf stagingWeb2User7 listed k e v) views \<and>
      map fst views =
        take 51 (drop 0 (map fst
          (filter (\<lambda>(k, e). matchingInstances stagingWeb2User7 k listed \<noteq> [])
             (sort_key (\<lambda>(k, e). (- lastOccurrence e, k))
                (activeErrors stagingWeb2User7 listed))))))"
proof -
  define views where "views =
     [((''A'', 2 :: nat),
        \<lparr>backtrace = ''f:1'', type = ''NullPointer'', hash = ''NullPointerf'', active = True,
         count = 2, level = 30, firstOccurrence = 120, lastOccurrence = 180, lastMessage = ''boom'',
         environments = [''staging''], servers = [''web2'']\<rparr>),
      ((''B'', 1),
        \<lparr>backtrace = ''f:1'', type = ''NullPointer'', hash = ''NullPointerf'', active = True,
         count = 1, level = 30, firstOccurrence = 100, lastOccurrence = 100, lastMessage = ''boom'',
         environments = [''staging''], servers = [''web2'']\<rparr>)]"
  have filt: "hasInstanceFilters stagingWeb2User7"
    by (simp add: hasInstanceFilters_def stagingWeb2User7_def)
  have es: "map (\<lambda>(k, e). (k, lastOccurrence e)) (errors listed)
     = [((''B'', 1), 200), ((''A'', 2), 200), ((''C'', 3), 300)]"
    by (simp add: listed_eq)
  have ins: "map (\<lambda>i. (parent_key i, environment i, server i, affectedUser i, date i)) (instances listed)
     = [((''B'', 1), ''staging'', ''web2'', Some 7, 100),
        ((''B'', 1), ''prod'', ''web2'', Some 7, 200),
        ((''A'', 2), ''staging'', ''web2'', Some 7, 150),
        ((''A'', 2), ''staging'', ''web1'', Some 7, 200),
        ((''A'', 2), ''staging'', ''web2'', Some 8, 120),
        ((''C'', 3), ''prod'', ''web1'', Some 7, 300),
        ((''A'', 2), ''staging'', ''web2'', Some 7, 180)]"
    by (simp add: listed_eq userInstance_def)
  have v: "fst (getErrors stagingWeb2User7 51 0 listed) = Inr views"
    by (simp add: views_def listed_eq userInstance_def sample_defs int_of_str_def strip_def
        isspace_def isdigit_def digits_val_def)
  have c: "map (\<lambda>(k, v). (k, count v, lastOccurrence v, environments v, servers v)) views
        = [((''A'', 2), 2, 180, [''staging''], [''web2'']),
           ((''B'', 1), 1, 100, [''staging''], [''web2''])]"
    by (simp add: views_def)
  from filtered_list_views[OF filt, where limit = 51 and offset = 0 and s = listed]
  have "list_all (\<lambda>(k, v). \<exists>e. (k, e) \<in> set (activeErrors stagingWeb2User7 listed) \<and>
                               viewOf stagingWeb2User7 listed k e v) views \<and>
      map fst views =
        take 51 (drop 0 (map fst
          (filter (\<lambda>(k, e). matchingInstances stagingWeb2User7 k listed \<noteq> [])
             (sort_key (\<lambda>(k, e). (- lastOccurrence e, k))
                (activeErrors stagingWeb2User7 listed)))))"
    by (simp add: v list_all_iff)
  with filt es ins v c show ?thesis
    by (intro conjI exI[where x = views]) simp_all
qed

section \<open>Trailing-window counts\<close>

text \<open>
  C8 (amended). With the right key, no project and \<^verbatim>\<open>minutes = "10 60"\<close>, on a datastore
  whose instances are exactly three, dated 5, 30 and 90 minutes before \<open>now\<close>,
  \<open>StatPage_get\<close> writes \<^verbatim>\<open>1 2\<close>: one instance is within the last 10 minutes and two are
  within the last 60.
\<close>

theorem stats_example_counts:
  assumes "key = SECRET_KEY ext"
    and "sort (map date (instances s)) = [now - 90 * 60, now - 30 * 60, now - 5 * 60]"
  shows "StatPage_get ext now key [] ''10 60'' s = (Written ''1 2'', s)"
proof -
  have sp: "py_split ''10 60'' = [''10'', ''60'']"
    by (simp add: py_split_def isspace_def)
  have i10: "int_of_str ''10'' = Inr 10" and i60: "int_of_str ''60'' = Inr 60"
    by (simp_all add: int_of_str_def strip_def isspace_def isdigit_def digits_val_def)
  have c: "\<And>c. length (filter (\<lambda>i. c \<le> date i) (instances s)) =
             length (filter (\<lambda>d. c \<le> d) [now - 90 * 60, now - 30 * 60, now - 5 * 60])"
  proof -
    fix c
    have "length (filter (\<lambda>i. c \<le> date i) (instances s)) = length (filter (\<lambda>d. c \<le> d) (map date (instances s)))"
      by (induction "instances s") (simp_all add: filter_map o_def)
    also have "\<dots> = length (filter (\<lambda>d. c \<le> d) (sort (map date (instances s))))"
      by (simp add: length_filter_sort)
    finally show "length (filter (\<lambda>i. c \<le> date i) (instances s)) =
             length (filter (\<lambda>d. c \<le> d) [now - 90 * 60, now - 30 * 60, now - 5 * 60])"
      using assms(2) by simp
  qed
  show ?thesis
    using assms(1) by (simp add: StatPage_get_def sp i10 i60 c)
qed

theorem stats_example_counts_witness:
  "sort (map date (instances (threeInstances 10000))) = [10000 - 90 * 60, 10000 - 30 * 60, 10000 - 5 * 60] \<and>
   StatPage_get ext0 10000 ''secret'' [] ''10 60'' (threeInstances 10000)
     = (Written ''1 2'', threeInstances 10000)"
proof -
  have k: "''secret'' = SECRET_KEY ext0" by (simp add: ext0_def)
  have d: "sort (map date (instances (threeInstances 10000)))
           = [10000 - 90 * 60, 10000 - 30 * 60, 10000 - 5 * 60]"
    by (simp add: threeInstances_def newInstance_def)
  from stats_example_counts[OF k d] d show ?thesis by simp
qed

text \<open>C8 as stated: the answer for these three instances is not \<^verbatim>\<open>2 3\<close>.\<close>

theorem stats_example_not_2_3:
  "map date (instances (threeInstances 10000)) = [10000 - 5 * 60, 10000 - 30 * 60, 10000 - 90 * 60] \<and>
   fst (StatPage_get ext0 10000 ''secret'' [] ''10 60'' (threeInstances 10000)) \<noteq> Written ''2 3''"
  by (simp add: StatPage_get_def ext0_def init_def py_split_def isspace_def int_of_str_def strip_def
      isdigit_def digits_val_def newInstance_def threeInstances_def)

section \<open>The worker and its queue\<close>

text \<open>
  C9. \<open>ReportWorker_post\<close> for a key with no Queue record returns and leaves the state as
  it is. When it returns for a key that has a record, \<open>putException\<close> has returned on the
  record's report, the state is the one \<open>putException\<close> left with the record deleted, and
  the same request made again changes nothing. When it raises, the record is still what
  it was.
\<close>

theorem worker_redelivery_noop:
  "(map_of (queue s) key = None \<longrightarrow> ReportWorker_post ext projectStr key s = (None, s)) \<and>
   (map_of (queue s) key \<noteq> None \<and> ReportWorker_post ext projectStr key s = (None, s') \<longrightarrow>
      (\<exists>exception s1. map_of (queue s) key = Some (Some exception) \<and>
          putException ext projectStr exception s = (None, s1) \<and>
          s' = s1\<lparr>queue := AList.delete key (queue s)\<rparr>) \<and>
      map_of (queue s') key = None \<and>
      ReportWorker_post ext projectStr' key s' = (None, s')) \<and>
   (ReportWorker_post ext projectStr key s = (Some e, s') \<longrightarrow>
      map_of (queue s') key = map_of (queue s) key)"
proof (intro conjI impI)
  show "map_of (queue s) key = None \<Longrightarrow> ReportWorker_post ext projectStr key s = (None, s)"
    by (rule ReportWorker_gone)
next
  assume a: "map_of (queue s) key \<noteq> None \<and> ReportWorker_post ext projectStr key s = (None, s')"
  then obtain exception where q: "map_of (queue s) key = Some (Some exception)"
    by (auto simp: ReportWorker_post_def split: option.splits)
  obtain r s1 where pe: "putException ext projectStr exception s = (r, s1)"
    by (cases "putException ext projectStr exception s")
  have qs1: "queue s1 = queue s" using putException_frame(1)[of ext projectStr exception s] pe by simp
  from a q pe have r: "r = None" and s': "s' = s1\<lparr>queue := AList.delete key (queue s1)\<rparr>"
    by (auto simp: ReportWorker_post_def split: option.splits)
  show "\<exists>exception s1. map_of (queue s) key = Some (Some exception) \<and>
          putException ext projectStr exception s = (None, s1) \<and>
          s' = s1\<lparr>queue := AList.delete key (queue s)\<rparr>"
    using q pe r s' qs1 by auto
  show g: "map_of (queue s') key = None"
    using s' by (simp add: delete_conv')
  show "ReportWorker_post ext projectStr' key s' = (None, s')"
    using g by (rule ReportWorker_gone)
next
  assume a: "ReportWorker_post ext projectStr key s = (Some e, s')"
  show "map_of (queue s') key = map_of (queue s) key"
  proof (cases "map_of (queue s) key")
    case None
    with a show ?thesis by (simp add: ReportWorker_post_def)
  next
    case (Some task)
    show ?thesis
    proof (cases task)
      case None
      with Some a show ?thesis by (simp add: ReportWorker_post_def)
    next
      case (Some exception)
      obtain r s1 where pe: "putException ext projectStr exception s = (r, s1)"
        by (cases "putException ext projectStr exception s")
      have qs1: "queue s1 = queue s" using putException_frame(1)[of ext projectStr exception s] pe by simp
      from a Some \<open>map_of (queue s) key = Some task\<close> pe have "s' = s1"
        by (auto simp: ReportWorker_post_def split: option.splits)
      with qs1 show ?thesis by simp
    qed
  qed
qed

theorem worker_redelivery_noop_witness:
  "map_of (queue queued) 1 \<noteq> None \<and>
   fst (ReportWorker_post ext0 obj 1 queued) = None \<and>
   map parent_key (instances (snd (ReportWorker_post ext0 obj 1 queued))) = [(''P'', 1)] \<and>
   map_of (queue (snd (ReportWorker_post ext0 obj 1 queued))) 1 = None \<and>
   ReportWorker_post ext0 obj 1 (snd (ReportWorker_post ext0 obj 1 queued))
     = (None, snd (ReportWorker_post ext0 obj 1 queued)) \<and>
   fst (ReportWorker_post ext0 obj 1 queuedBad) = Some ValueError \<and>
   map_of (queue (snd (ReportWorker_post ext0 obj 1 queuedBad))) 1 = Some (Some badUserReport)"
proof -
  let ?s' = "snd (ReportWorker_post ext0 obj 1 queued)"
  let ?b' = "snd (ReportWorker_post ext0 obj 1 queuedBad)"
  have q: "map_of (queue queued) 1 \<noteq> None" by (simp add: sample_defs init_def ext0_def)
  have f: "fst (ReportWorker_post ext0 obj 1 queued) = None"
    by (simp add: sample_defs model_defs)
  have i: "map parent_key (instances ?s') = [(''P'', 1)]"
    by (simp add: sample_defs model_defs)
  have ok: "ReportWorker_post ext0 obj 1 queued = (None, ?s')" using f by (simp add: prod_eq_iff)
  have fb: "fst (ReportWorker_post ext0 obj 1 queuedBad) = Some ValueError"
    by (simp add: sample_defs model_defs)
  have bad: "ReportWorker_post ext0 obj 1 queuedBad = (Some ValueError, ?b')"
    using fb by (simp add: prod_eq_iff)
  have qb: "map_of (queue queuedBad) 1 = Some (Some badUserReport)"
    by (simp add: sample_defs init_def ext0_def)
  from worker_redelivery_noop[of queued 1 ext0 obj ?s' obj] q ok
  have a: "map_of (queue ?s') 1 = None" "ReportWorker_post ext0 obj 1 ?s' = (None, ?s')"
    by simp_all
  from worker_redelivery_noop[of queuedBad 1 ext0 obj ?b' obj ValueError] bad qb
  have b: "map_of (queue ?b') 1 = Some (Some badUserReport)" by simp
  show ?thesis using q f i a fb b by simp
qed

section \<open>Projects created by reads\<close>

text \<open>
  C10. In every state the server reaches from the empty datastore and memcache by its
  requests, and for every name that is not empty and has no Project record:
  \<open>getErrors\<close> with a project filter of that name, and \<open>StatPage_get\<close> with the right key
  and that name as its project parameter, leave the state with that Project record added
  and nothing else changed. The empty text is no name: the datastore refuses it as a key
  name, so \<open>getErrors\<close> with the empty project filter raises and stores nothing
  (\<open>getErrors_raises\<close>), and \<open>StatPage_get\<close> takes an empty parameter for no project.
\<close>

theorem project_created_by_reads:
  assumes "s = serve ext reqs init" and "name \<notin> set (projects s)" and "name \<noteq> []"
  shows "(f_project fs = Some name \<longrightarrow>
            snd (getErrors fs limit offset s) = s\<lparr>projects := projects s @ [name]\<rparr>) \<and>
         (key = SECRET_KEY ext \<longrightarrow>
            snd (StatPage_get ext now key name minutes s) = s\<lparr>projects := projects s @ [name]\<rparr>)"
proof -
  have m: "memcache_project s = []"
    using assms(1) by (simp add: serve_memcache_project init_def)
  then have w: "withProject name s = s\<lparr>projects := projects s @ [name]\<rparr>"
    using assms(2) by (simp add: withProject_new)
  have nr: "\<not> projectRaises s name" using assms(3) by (simp add: projectRaises_def)
  show ?thesis using w nr assms(3) by (simp add: getErrors_snd StatPage_get_snd)
qed

theorem project_created_by_reads_witness:
  "''Q'' \<notin> set (projects (serve ext0 [Report ''secret'' (Some badUserReport), Work obj 1] init)) \<and>
   projects (snd (getErrors (stagingOnly\<lparr>f_project := Some ''Q''\<rparr>) 51 0
      (serve ext0 [Report ''secret'' (Some badUserReport), Work obj 1] init))) = [''P'', ''Q''] \<and>
   snd (getErrors (stagingOnly\<lparr>f_project := Some ''Q''\<rparr>) 51 0
      (serve ext0 [Report ''secret'' (Some badUserReport), Work obj 1] init))
    = (serve ext0 [Report ''secret'' (Some badUserReport), Work obj 1] init)
        \<lparr>projects := projects (serve ext0 [Report ''secret'' (Some badUserReport), Work obj 1] init)
             @ [''Q'']\<rparr> \<and>
   snd (StatPage_get ext0 10000 ''secret'' ''Q'' ''10 60''
      (serve ext0 [Report ''secret'' (Some badUserReport), Work obj 1] init))
    = (serve ext0 [Report ''secret'' (Some badUserReport), Work obj 1] init)
        \<lparr>projects := projects (serve ext0 [Report ''secret'' (Some badUserReport), Work obj 1] init)
             @ [''Q'']\<rparr>"
proof -
  define s where "s = serve ext0 [Report ''secret'' (Some badUserReport), Work obj 1] init"
  have p: "projects s = [''P'']" by (simp add: s_def sample_defs model_defs)
  then have n: "''Q'' \<notin> set (projects s)" by simp
  have q: "''Q'' \<noteq> []" by simp
  have k: "''secret'' = SECRET_KEY ext0" by (simp add: ext0_def)
  have fp: "f_project (stagingOnly\<lparr>f_project := Some ''Q''\<rparr>) = Some ''Q''" by simp
  from project_created_by_reads[OF s_def n q, of "stagingOnly\<lparr>f_project := Some ''Q''\<rparr>" 51 0
      "''secret''" 10000 "''10 60''"] fp k
  have a: "snd (getErrors (stagingOnly\<lparr>f_project := Some ''Q''\<rparr>) 51 0 s)
             = s\<lparr>projects := projects s @ [''Q'']\<rparr>"
    and b: "snd (StatPage_get ext0 10000 ''secret'' ''Q'' ''10 60'' s)
             = s\<lparr>projects := projects s @ [''Q'']\<rparr>"
    by blast+
  have c: "projects (snd (getErrors (stagingOnly\<lparr>f_project := Some ''Q''\<rparr>) 51 0 s)) = [''P'', ''Q'']"
    unfolding a by (simp add: p)
  show ?thesis unfolding s_def[symmetric] using n a b c by blast
qed

end
